theory Spec2Isabelle
  imports Complex_Main
begin

section \<open>Values\<close>

text \<open>
  The handlers of \<^verbatim>\<open>app.py\<close> work on parsed JSON. A value is what Python's
  \<^verbatim>\<open>json.loads\<close> returns: \<^verbatim>\<open>None\<close>, a \<^verbatim>\<open>bool\<close>, an unbounded \<^verbatim>\<open>int\<close>, a \<^verbatim>\<open>float\<close>,
  a \<^verbatim>\<open>str\<close>, a \<^verbatim>\<open>list\<close> or a \<^verbatim>\<open>dict\<close> with string keys. A float is kept by its
  finite value (the parser's NaN and Infinity extensions are outside the model). A
  \<^verbatim>\<open>str\<close> is a list of code points; a \<^typ>\<open>char\<close> stands for a code point below 256, so
  the strings of the model are the Latin-1 ones. A \<^verbatim>\<open>dict\<close> is an association list whose
  first binding of a key is the one in force.
\<close>

datatype json =
    JNull
  | JBool bool
  | JInt int
  | JFloat rat
  | JStr string
  | JList "json list"
  | JDict "(string \<times> json) list"

type_synonym bytes = "char list"

fun truthy :: "json \<Rightarrow> bool" where
  "truthy JNull = False"
| "truthy (JBool b) = b"
| "truthy (JInt i) = (i \<noteq> 0)"
| "truthy (JFloat r) = (r \<noteq> 0)"
| "truthy (JStr s) = (s \<noteq> [])"
| "truthy (JList xs) = (xs \<noteq> [])"
| "truthy (JDict kvs) = (kvs \<noteq> [])"

fun type_name :: "json \<Rightarrow> string" where
  "type_name JNull = ''NoneType''"
| "type_name (JBool b) = ''bool''"
| "type_name (JInt i) = ''int''"
| "type_name (JFloat r) = ''float''"
| "type_name (JStr s) = ''str''"
| "type_name (JList xs) = ''list''"
| "type_name (JDict kvs) = ''dict''"

text \<open>\<^verbatim>\<open>isinstance(v, str)\<close> and \<^verbatim>\<open>isinstance(v, int)\<close>; \<^verbatim>\<open>bool\<close> is a subclass of \<^verbatim>\<open>int\<close>.\<close>

fun isinstance_str :: "json \<Rightarrow> bool" where
  "isinstance_str (JStr s) = True"
| "isinstance_str v = False"

fun isinstance_int :: "json \<Rightarrow> bool" where
  "isinstance_int (JInt i) = True"
| "isinstance_int (JBool b) = True"
| "isinstance_int v = False"

text \<open>The number a value compares as (\<^verbatim>\<open>True == 1\<close>, \<^verbatim>\<open>0.0 == 0\<close>); no number for the rest.\<close>

fun num_value :: "json \<Rightarrow> rat option" where
  "num_value (JBool b) = Some (if b then 1 else 0)"
| "num_value (JInt i) = Some (of_int i)"
| "num_value (JFloat r) = Some r"
| "num_value v = None"

definition eq_int :: "json \<Rightarrow> int \<Rightarrow> bool" where
  "eq_int v i = (num_value v = Some (of_int i))"

definition le_int :: "json \<Rightarrow> int \<Rightarrow> bool" where
  "le_int v i = (case num_value v of Some r \<Rightarrow> r \<le> of_int i | None \<Rightarrow> False)"

subsection \<open>Exceptions\<close>

datatype exn_class =
    RequestException
  | HTTPError
  | RequestsJSONDecodeError
  | JSONDecodeError
  | AttributeError
  | TypeError
  | ValueError
  | HTTPException
  | OtherException

text \<open>An exception is its class and its text, \<^verbatim>\<open>str(e)\<close>.\<close>

datatype exn = Exn exn_class string

fun exn_str :: "exn \<Rightarrow> string" where
  "exn_str (Exn c m) = m"

text \<open>
  The two classes the handlers name. \<^verbatim>\<open>requests.exceptions.HTTPError\<close> derives from
  \<^verbatim>\<open>RequestException\<close>; the decode error of recent versions of \<^verbatim>\<open>requests\<close> derives from
  both \<^verbatim>\<open>RequestException\<close> and \<^verbatim>\<open>json.JSONDecodeError\<close>.
\<close>

fun is_RequestException :: "exn \<Rightarrow> bool" where
  "is_RequestException (Exn c m) = (c = RequestException \<or> c = HTTPError \<or> c = RequestsJSONDecodeError)"

fun is_JSONDecodeError :: "exn \<Rightarrow> bool" where
  "is_JSONDecodeError (Exn c m) = (c = JSONDecodeError \<or> c = RequestsJSONDecodeError)"

definition quote :: char where
  "quote = CHR 0x27"

subsection \<open>Dictionaries\<close>

text \<open>\<^verbatim>\<open>obj.get(key, default)\<close>: only a \<^verbatim>\<open>dict\<close> has the method.\<close>

fun py_get :: "json \<Rightarrow> string \<Rightarrow> json \<Rightarrow> exn + json" where
  "py_get (JDict kvs) key dflt = Inr (case map_of kvs key of Some v \<Rightarrow> v | None \<Rightarrow> dflt)"
| "py_get v key dflt =
     Inl (Exn AttributeError (quote # type_name v @ quote # '' object has no attribute '' @ quote # ''get'' @ [quote]))"

text \<open>Iteration of a \<^verbatim>\<open>for\<close> loop over a value: a dict yields its keys, a string its characters.\<close>

fun py_iter :: "json \<Rightarrow> exn + json list" where
  "py_iter (JList xs) = Inr xs"
| "py_iter (JDict kvs) = Inr (map (\<lambda>kv. JStr (fst kv)) kvs)"
| "py_iter (JStr s) = Inr (map (\<lambda>c. JStr [c]) s)"
| "py_iter v = Inl (Exn TypeError (quote # type_name v @ quote # '' object is not iterable''))"

text \<open>
  A dictionary built by the program, keyed by values. Lists and dicts are unhashable;
  numbers that compare equal are the same key.
\<close>

fun hashable :: "json \<Rightarrow> bool" where
  "hashable (JList xs) = False"
| "hashable (JDict kvs) = False"
| "hashable v = True"

definition key_eq :: "json \<Rightarrow> json \<Rightarrow> bool" where
  "key_eq a b = (case num_value a of
       Some x \<Rightarrow> num_value b = Some x
     | None \<Rightarrow> a = b)"

fun dict_update :: "(json \<times> json) list \<Rightarrow> json \<Rightarrow> json \<Rightarrow> (json \<times> json) list" where
  "dict_update [] k v = [(k, v)]"
| "dict_update ((k', v') # d) k v = (if key_eq k' k then (k', v) # d else (k', v') # dict_update d k v)"

definition dict_setitem :: "(json \<times> json) list \<Rightarrow> json \<Rightarrow> json \<Rightarrow> exn + (json \<times> json) list" where
  "dict_setitem d k v =
     (if hashable k then Inr (dict_update d k v)
      else Inl (Exn TypeError (''unhashable type: '' @ quote # type_name k @ [quote])))"

fun dict_lookup :: "(json \<times> json) list \<Rightarrow> json \<Rightarrow> json option" where
  "dict_lookup [] k = None"
| "dict_lookup ((k', v') # d) k = (if key_eq k' k then Some v' else dict_lookup d k)"

definition dict_get :: "(json \<times> json) list \<Rightarrow> json \<Rightarrow> json" where
  "dict_get d k = (case dict_lookup d k of Some v \<Rightarrow> v | None \<Rightarrow> JNull)"

subsection \<open>Strings\<close>

definition code_point :: "char \<Rightarrow> nat" where
  "code_point c = of_char c"

text \<open>\<^verbatim>\<open>str.isdigit\<close>: below 256 the digits are 0 to 9 and the superscripts two, three, one.\<close>

definition isdigit_char :: "char \<Rightarrow> bool" where
  "isdigit_char c = (let n = code_point c in (48 \<le> n \<and> n \<le> 57) \<or> n = 178 \<or> n = 179 \<or> n = 185)"

definition py_isdigit :: "string \<Rightarrow> bool" where
  "py_isdigit s = (s \<noteq> [] \<and> list_all isdigit_char s)"

definition startswith :: "string \<Rightarrow> string \<Rightarrow> bool" where
  "startswith s p = (take (length p) s = p)"

definition is_decimal :: "char \<Rightarrow> bool" where
  "is_decimal c = (48 \<le> code_point c \<and> code_point c \<le> 57)"

definition digit_char :: "nat \<Rightarrow> char" where
  "digit_char d = char_of (48 + d)"

text \<open>Decimal text of a number, as \<^verbatim>\<open>str(n)\<close> and the \<^verbatim>\<open>%d\<close>-like fields give it.\<close>

fun str_of_nat :: "nat \<Rightarrow> string" where
  "str_of_nat n = (if n < 10 then [digit_char n] else str_of_nat (n div 10) @ [digit_char (n mod 10)])"

declare str_of_nat.simps [simp del]

definition hex_digit :: "nat \<Rightarrow> char" where
  "hex_digit d = (if d < 10 then char_of (48 + d) else char_of (87 + d))"

text \<open>
  \<^verbatim>\<open>repr\<close> of a string: single quotes unless the text has a single and no double quote;
  the quote and the backslash escaped; tab, newline, return by letter; every other
  unprintable code point as \<^verbatim>\<open>\xNN\<close>.
\<close>

definition isprintable_char :: "char \<Rightarrow> bool" where
  "isprintable_char c = (let n = code_point c in
     (32 \<le> n \<and> n \<le> 126) \<or> (161 \<le> n \<and> n \<noteq> 173))"

definition repr_char :: "char \<Rightarrow> char \<Rightarrow> string" where
  "repr_char q c =
     (if c = q \<or> c = CHR 0x5C then [CHR 0x5C, c]
      else if c = CHR 0x09 then [CHR 0x5C, CHR ''t'']
      else if c = CHR 0x0A then [CHR 0x5C, CHR ''n'']
      else if c = CHR 0x0D then [CHR 0x5C, CHR ''r'']
      else if isprintable_char c then [c]
      else [CHR 0x5C, CHR ''x'', hex_digit (code_point c div 16), hex_digit (code_point c mod 16)])"

definition py_repr :: "string \<Rightarrow> string" where
  "py_repr s =
     (let q = (if quote \<in> set s \<and> CHR 0x22 \<notin> set s then CHR 0x22 else quote)
      in q # concat (map (repr_char q) s) @ [q])"

text \<open>
  \<^verbatim>\<open>int(s)\<close> on a string, base 10: surrounding whitespace, one optional sign, decimal
  digits with single underscores between them.
\<close>

definition int_space :: "char \<Rightarrow> bool" where
  "int_space c = (let n = code_point c in (9 \<le> n \<and> n \<le> 13) \<or> n = 32 \<or> n = 133 \<or> n = 160)"

fun parse_digits :: "string \<Rightarrow> nat \<Rightarrow> nat option" where
  "parse_digits [] acc = None"
| "parse_digits [c] acc = (if is_decimal c then Some (acc * 10 + (code_point c - 48)) else None)"
| "parse_digits (c # d # ds) acc =
     (if is_decimal c
      then (if d = CHR ''_'' then parse_digits ds (acc * 10 + (code_point c - 48))
            else parse_digits (d # ds) (acc * 10 + (code_point c - 48)))
      else None)"

definition strip_int :: "string \<Rightarrow> string" where
  "strip_int s = rev (dropWhile int_space (rev (dropWhile int_space s)))"

definition py_int :: "string \<Rightarrow> exn + int" where
  "py_int s =
     (let t = strip_int s;
          r = (case t of
                 [] \<Rightarrow> None
               | c # cs \<Rightarrow>
                   if c = CHR ''-'' then map_option (\<lambda>n. - int n) (parse_digits cs 0)
                   else if c = CHR ''+'' then map_option int (parse_digits cs 0)
                   else map_option int (parse_digits t 0))
      in case r of
           Some i \<Rightarrow> Inr i
         | None \<Rightarrow> Inl (Exn ValueError (''invalid literal for int() with base 10: '' @ py_repr s)))"

text \<open>\<^verbatim>\<open>s.encode('utf-8')\<close>: one byte below 128, two bytes from 128 to 255.\<close>

definition utf8_char :: "char \<Rightarrow> bytes" where
  "utf8_char c = (let n = code_point c in
     if n < 128 then [c] else [char_of (192 + n div 64), char_of (128 + n mod 64)])"

definition utf8 :: "string \<Rightarrow> bytes" where
  "utf8 s = concat (map utf8_char s)"

text \<open>\<^verbatim>\<open>base64.b64encode\<close> with the standard alphabet, then \<^verbatim>\<open>.decode('utf-8')\<close> of its ASCII output.\<close>

definition b64_alphabet :: string where
  "b64_alphabet = ''ABCDEFGHIJKLMNOPQRSTUVWXYZabcdefghijklmnopqrstuvwxyz0123456789+/''"

definition b64_char :: "nat \<Rightarrow> char" where
  "b64_char n = b64_alphabet ! n"

fun b64encode :: "bytes \<Rightarrow> string" where
  "b64encode [] = []"
| "b64encode [a] =
     [b64_char (code_point a div 4), b64_char (code_point a mod 4 * 16), CHR ''='', CHR ''='']"
| "b64encode [a, b] =
     [b64_char (code_point a div 4),
      b64_char (code_point a mod 4 * 16 + code_point b div 16),
      b64_char (code_point b mod 16 * 4), CHR ''='']"
| "b64encode (a # b # c # rest) =
     [b64_char (code_point a div 4),
      b64_char (code_point a mod 4 * 16 + code_point b div 16),
      b64_char (code_point b mod 16 * 4 + code_point c div 64),
      b64_char (code_point c mod 64)] @ b64encode rest"


section \<open>Effects\<close>

text \<open>
  The program reads the clock, calls two HTTP endpoints and writes log lines. A run
  returns its result together with the list of the effects it performed, in order.
  A log line is recorded by its level, its message template and the JSON values
  interpolated into it; texts of exceptions and raw response bodies interpolated into
  a log line are not recorded.
\<close>

datatype loglevel = INFO | WARNING | ERROR

text \<open>
  A header value is a literal text, or the text of the f-string \<^verbatim>\<open>f"Bearer {access_token}"\<close>,
  kept by the value it formats.
\<close>

datatype header_value = Literal string | Bearer json

type_synonym headers = "(string \<times> header_value) list"

datatype event =
    Log loglevel string "json list"
  | HttpGet string headers
  | HttpPost string json headers
  | Now string

type_synonym 'a comp = "(exn + 'a) \<times> event list"

definition ret :: "'a \<Rightarrow> 'a comp" where
  "ret x = (Inr x, [])"

definition lift :: "exn + 'a \<Rightarrow> 'a comp" where
  "lift r = (r, [])"

definition emit :: "event \<Rightarrow> unit comp" where
  "emit ev = (Inr (), [ev])"

text \<open>Sequencing: an exception of the first part skips the second, its effects stay.\<close>

definition bind_c :: "'a comp \<Rightarrow> ('a \<Rightarrow> 'b comp) \<Rightarrow> 'b comp" where
  "bind_c m f =
     (case m of
        (Inl e, tr) \<Rightarrow> (Inl e, tr)
      | (Inr x, tr) \<Rightarrow> (case f x of (r, tr') \<Rightarrow> (r, tr @ tr')))"

subsection \<open>Configuration and environment\<close>

text \<open>
  The module-level constants of \<^verbatim>\<open>app.py\<close>. Their assignments are not part of the source
  file at hand, so they are parameters here; each is a string read from the process
  environment.
\<close>

record config =
  CONSUMER_KEY :: string
  CONSUMER_SECRET :: string
  PASSKEY :: string
  BUSINESS_SHORT_CODE :: string
  CALLBACK_URL :: string
  OAUTH_URL :: string
  STKPUSH_URL :: string
  TRANSACTION_TYPE :: string
  ACCOUNT_REFERENCE :: string
  TRANSACTION_DESC :: string

text \<open>
  A \<^verbatim>\<open>requests.Response\<close>: its status, reason phrase and URL, and what \<^verbatim>\<open>response.json()\<close>
  does, which is to return the parsed body or to raise.
\<close>

record response =
  status_code :: nat
  reason :: string
  url :: string
  json_result :: "exn + json"

text \<open>The aware \<^verbatim>\<open>datetime\<close> that \<^verbatim>\<open>datetime.now(tz)\<close> returns, by its civil fields.\<close>

record datetime =
  year :: nat
  month :: nat
  day :: nat
  hour :: nat
  minute :: nat
  second :: nat
  microsecond :: nat

text \<open>
  The world outside the process. \<^verbatim>\<open>requests.get\<close> and \<^verbatim>\<open>requests.post\<close> return a
  response or raise a \<^verbatim>\<open>RequestException\<close> with the given text; the clock gives the
  current time in the zone asked for.
\<close>

record env =
  requests_get :: "string \<Rightarrow> headers \<Rightarrow> string + response"
  requests_post :: "string \<Rightarrow> json \<Rightarrow> headers \<Rightarrow> string + response"
  datetime_now :: "string \<Rightarrow> datetime"

definition http_get :: "env \<Rightarrow> string \<Rightarrow> headers \<Rightarrow> response comp" where
  "http_get env u hs =
     (case requests_get env u hs of
        Inl m \<Rightarrow> (Inl (Exn RequestException m), [HttpGet u hs])
      | Inr r \<Rightarrow> (Inr r, [HttpGet u hs]))"

definition http_post :: "env \<Rightarrow> string \<Rightarrow> json \<Rightarrow> headers \<Rightarrow> response comp" where
  "http_post env u payload hs =
     (case requests_post env u payload hs of
        Inl m \<Rightarrow> (Inl (Exn RequestException m), [HttpPost u payload hs])
      | Inr r \<Rightarrow> (Inr r, [HttpPost u payload hs]))"

text \<open>\<^verbatim>\<open>response.raise_for_status()\<close>: an \<^verbatim>\<open>HTTPError\<close> for a status from 400 to 599.\<close>

definition raise_for_status :: "response \<Rightarrow> exn + unit" where
  "raise_for_status r =
     (if 400 \<le> status_code r \<and> status_code r < 500
      then Inl (Exn HTTPError (str_of_nat (status_code r) @ '' Client Error: '' @ reason r @ '' for url: '' @ url r))
      else if 500 \<le> status_code r \<and> status_code r < 600
      then Inl (Exn HTTPError (str_of_nat (status_code r) @ '' Server Error: '' @ reason r @ '' for url: '' @ url r))
      else Inr ())"

section \<open>The access token\<close>

definition get_access_token_try :: "config \<Rightarrow> env \<Rightarrow> json comp" where
  "get_access_token_try cfg env =
     (let auth_string = CONSUMER_KEY cfg @ '':'' @ CONSUMER_SECRET cfg;
          encoded_auth_string = b64encode (utf8 auth_string);
          hs = [(''Authorization'', Literal (''Basic '' @ encoded_auth_string)),
                (''Content-Type'', Literal ''application/json'')]
      in bind_c (http_get env (OAUTH_URL cfg) hs) (\<lambda>response.
         bind_c (lift (raise_for_status response)) (\<lambda>_.
         bind_c (lift (json_result response)) (\<lambda>result.
         bind_c (lift (py_get result ''access_token'' JNull)) (\<lambda>access_token.
           if truthy access_token
           then bind_c (emit (Log INFO ''Successfully obtained M-Pesa access token.'' []))
                  (\<lambda>_. ret access_token)
           else bind_c (emit (Log ERROR ''Access token not found in response: {result}'' [result]))
                  (\<lambda>_. ret JNull))))))"

text \<open>The three handlers of \<^verbatim>\<open>get_access_token\<close> log and return \<^verbatim>\<open>None\<close>.\<close>

definition get_access_token :: "config \<Rightarrow> env \<Rightarrow> json \<times> event list" where
  "get_access_token cfg env =
     (case get_access_token_try cfg env of
        (Inr access_token, tr) \<Rightarrow> (access_token, tr)
      | (Inl e, tr) \<Rightarrow>
          if is_RequestException e
          then (JNull, tr @ [Log ERROR ''Network or API error while getting access token: {e}'' []])
          else if is_JSONDecodeError e
          then (JNull, tr @ [Log ERROR ''Failed to decode JSON from access token response: {response.text}'' []])
          else (JNull, tr @ [Log ERROR ''An unexpected error occurred in get_access_token.'' []]))"

section \<open>Timestamp and password\<close>

definition zero_pad :: "nat \<Rightarrow> nat \<Rightarrow> string" where
  "zero_pad w n = replicate (w - length (str_of_nat n)) CHR ''0'' @ str_of_nat n"

text \<open>\<^verbatim>\<open>strftime("%Y%m%d%H%M%S")\<close>: the year on four digits, the other fields on two.\<close>

definition strftime :: "datetime \<Rightarrow> string" where
  "strftime t =
     zero_pad 4 (year t) @ zero_pad 2 (month t) @ zero_pad 2 (day t) @
     zero_pad 2 (hour t) @ zero_pad 2 (minute t) @ zero_pad 2 (second t)"

definition generate_mpesa_credentials :: "config \<Rightarrow> env \<Rightarrow> (string \<times> string) \<times> event list" where
  "generate_mpesa_credentials cfg env =
     (let nairobi_tz = ''Africa/Nairobi'';
          timestamp = strftime (datetime_now env nairobi_tz);
          password_str = BUSINESS_SHORT_CODE cfg @ PASSKEY cfg @ timestamp;
          password = b64encode (utf8 password_str)
      in ((timestamp, password),
          [Now nairobi_tz,
           Log INFO ''Generated timestamp: {timestamp}, password: [HIDDEN]'' [JStr timestamp]]))"


section \<open>Initiating a payment\<close>

type_synonym reply = "json \<times> nat"

definition failure_body :: "string \<Rightarrow> json" where
  "failure_body m = JDict [(''success'', JBool False), (''message'', JStr m)]"

fun str_of :: "json \<Rightarrow> string" where
  "str_of (JStr s) = s"
| "str_of v = []"

text \<open>The condition of line 122, with Python's short-circuit order.\<close>

definition phone_format_ok :: "json \<Rightarrow> bool" where
  "phone_format_ok phone_number =
     (isinstance_str phone_number \<and>
      (startswith (str_of phone_number) ''2547'' \<or> startswith (str_of phone_number) ''2541'') \<and>
      length (str_of phone_number) = 12 \<and>
      py_isdigit (str_of phone_number))"

text \<open>Lines 132 to 188, the body of the \<^verbatim>\<open>try\<close> statement.\<close>

definition stk_push_try :: "config \<Rightarrow> env \<Rightarrow> json \<Rightarrow> json \<Rightarrow> reply comp" where
  "stk_push_try cfg env phone_number amount =
     (case get_access_token cfg env of (access_token, tr0) \<Rightarrow>
      bind_c (Inr (), tr0) (\<lambda>_.
        if \<not> truthy access_token
        then bind_c (emit (Log ERROR ''STK Push failed: Could not obtain M-Pesa access token.'' []))
               (\<lambda>_. ret (failure_body ''Failed to connect to M-Pesa. Please try again later.'', 500))
        else
          (case generate_mpesa_credentials cfg env of ((timestamp, password), tr1) \<Rightarrow>
           bind_c (Inr (), tr1) (\<lambda>_.
           bind_c (lift (py_int (BUSINESS_SHORT_CODE cfg))) (\<lambda>short_code.
           bind_c (lift (py_int (str_of phone_number))) (\<lambda>party_a.
           bind_c (lift (py_int (BUSINESS_SHORT_CODE cfg))) (\<lambda>party_b.
           bind_c (lift (py_int (str_of phone_number))) (\<lambda>phone.
             (let payload = JDict
                    [(''BusinessShortCode'', JInt short_code),
                     (''Password'', JStr password),
                     (''Timestamp'', JStr timestamp),
                     (''TransactionType'', JStr (TRANSACTION_TYPE cfg)),
                     (''Amount'', amount),
                     (''PartyA'', JInt party_a),
                     (''PartyB'', JInt party_b),
                     (''PhoneNumber'', JInt phone),
                     (''CallBackURL'', JStr (CALLBACK_URL cfg)),
                     (''AccountReference'', JStr (ACCOUNT_REFERENCE cfg)),
                     (''TransactionDesc'', JStr (TRANSACTION_DESC cfg))];
                  hs = [(''Authorization'', Bearer access_token),
                        (''Content-Type'', Literal ''application/json'')]
              in
           bind_c (emit (Log INFO ''Sending STK Push request to Safaricom with payload: {payload}'' [payload])) (\<lambda>_.
           bind_c (http_post env (STKPUSH_URL cfg) payload hs) (\<lambda>response.
           bind_c (lift (raise_for_status response)) (\<lambda>_.
           bind_c (lift (json_result response)) (\<lambda>stk_response.
           bind_c (emit (Log INFO ''Received STK Push response from Safaricom: {stk_response}'' [stk_response])) (\<lambda>_.
           bind_c (lift (py_get stk_response ''ResponseCode'' JNull)) (\<lambda>response_code.
             if response_code = JStr ''0''
             then
               bind_c (lift (py_get stk_response ''CustomerMessage''
                        (JStr ''STK Push initiated successfully! Please check your phone for the M-Pesa prompt.''))) (\<lambda>message.
               bind_c (lift (py_get stk_response ''CheckoutRequestID'' JNull)) (\<lambda>checkout_request_id.
               bind_c (lift (py_get stk_response ''ResponseCode'' JNull)) (\<lambda>response_code'.
                 ret (JDict [(''success'', JBool True),
                             (''message'', message),
                             (''CheckoutRequestID'', checkout_request_id),
                             (''ResponseCode'', response_code')], 200))))
             else
               bind_c (lift (py_get stk_response ''ResponseDescription''
                        (JStr ''STK Push initiation failed due to an unknown M-Pesa error.''))) (\<lambda>error_message.
               bind_c (emit (Log ERROR ''STK Push failed at Safaricom: {error_message} | Full Response: {stk_response}''
                        [error_message, stk_response])) (\<lambda>_.
                 ret (JDict [(''success'', JBool False),
                             (''message'', error_message),
                             (''MpesaResponse'', stk_response)], 400))))))))))))))))))"

text \<open>Lines 190 to 198, the three handlers.\<close>

definition stk_push_handlers :: "reply comp \<Rightarrow> reply comp" where
  "stk_push_handlers m =
     (case m of
        (Inr r, tr) \<Rightarrow> (Inr r, tr)
      | (Inl e, tr) \<Rightarrow>
          if is_RequestException e
          then (Inr (failure_body (''Network or API communication error: '' @ exn_str e), 500),
                tr @ [Log ERROR ''Network or API communication error during STK Push: {e}'' []])
          else if is_JSONDecodeError e
          then (Inr (failure_body ''Failed to parse M-Pesa API response.'', 500),
                tr @ [Log ERROR ''Failed to decode JSON from STK Push response: {response.text}'' []])
          else (Inr (failure_body (''An unexpected server error occurred: '' @ exn_str e), 500),
                tr @ [Log ERROR ''An unexpected server error occurred during STK Push initiation.'' []]))"

text \<open>
  The view function. Its argument is what \<^verbatim>\<open>request.get_json()\<close> does for the request at
  hand: it returns the parsed body or raises. Lines 109 to 129 are outside the \<^verbatim>\<open>try\<close>
  statement, so an exception there leaves the function.
\<close>

definition initiate_stk_push :: "config \<Rightarrow> env \<Rightarrow> exn + json \<Rightarrow> reply comp" where
  "initiate_stk_push cfg env req =
     bind_c (lift req) (\<lambda>data.
     bind_c (lift (py_get data ''phoneNumber'' JNull)) (\<lambda>phone_number.
     bind_c (lift (py_get data ''amount'' JNull)) (\<lambda>amount.
     bind_c (emit (Log INFO ''Received STK Push request from frontend: Phone={phone_number}, Amount={amount}''
              [phone_number, amount])) (\<lambda>_.
       if \<not> truthy phone_number \<or> \<not> truthy amount
       then bind_c (emit (Log WARNING ''STK Push validation failed: Missing phone number or amount.'' []))
              (\<lambda>_. ret (failure_body ''Phone number and amount are required.'', 400))
       else if \<not> phone_format_ok phone_number
       then bind_c (emit (Log WARNING ''STK Push validation failed: Invalid phone number format {phone_number}.''
                     [phone_number]))
              (\<lambda>_. ret (failure_body
                    ''Invalid Kenyan Safaricom phone number format. Must be 2547/2541XXXXXXXX.'', 400))
       else if \<not> isinstance_int amount \<or> le_int amount 0
       then bind_c (emit (Log WARNING ''STK Push validation failed: Invalid amount {amount}.'' [amount]))
              (\<lambda>_. ret (failure_body ''Amount must be a positive integer.'', 400))
       else stk_push_handlers (stk_push_try cfg env phone_number amount)))))"

section \<open>The callback\<close>

text \<open>
  The loop of lines 224 and 225. In the assignment the right-hand side is evaluated
  before the subscript.
\<close>

fun collect_items :: "json list \<Rightarrow> (json \<times> json) list \<Rightarrow> exn + (json \<times> json) list" where
  "collect_items [] item_details = Inr item_details"
| "collect_items (item # items) item_details =
     (case py_get item ''Value'' JNull of
        Inl e \<Rightarrow> Inl e
      | Inr v \<Rightarrow>
          (case py_get item ''Name'' JNull of
             Inl e \<Rightarrow> Inl e
           | Inr k \<Rightarrow>
               (case dict_setitem item_details k v of
                  Inl e \<Rightarrow> Inl e
                | Inr item_details' \<Rightarrow> collect_items items item_details')))"

definition ack_success :: reply where
  "ack_success = (JDict [(''ResultCode'', JInt 0), (''ResultDesc'', JStr ''Callback received successfully'')], 200)"

definition ack_failure :: "exn \<Rightarrow> reply" where
  "ack_failure e =
     (JDict [(''ResultCode'', JInt 1), (''ResultDesc'', JStr (''Failed to process callback: '' @ exn_str e))], 500)"

text \<open>Lines 208 to 253, the body of the \<^verbatim>\<open>try\<close> statement.\<close>

definition mpesa_callback_try :: "exn + json \<Rightarrow> reply comp" where
  "mpesa_callback_try req =
     bind_c (lift req) (\<lambda>callback_data.
     bind_c (emit (Log INFO ''Received M-Pesa Callback: {callback_data}'' [callback_data])) (\<lambda>_.
     bind_c (lift (py_get callback_data ''Body'' (JDict []))) (\<lambda>body.
     bind_c (lift (py_get body ''stkCallback'' (JDict []))) (\<lambda>stk_callback.
     bind_c (lift (py_get stk_callback ''ResultCode'' JNull)) (\<lambda>result_code.
     bind_c (lift (py_get stk_callback ''CheckoutRequestID'' JNull)) (\<lambda>checkout_request_id.
     bind_c (lift (py_get stk_callback ''ResultDesc'' JNull)) (\<lambda>result_description.
     bind_c
       (if eq_int result_code 0
        then
          bind_c (emit (Log INFO ''M-Pesa STK Push successful for CheckoutRequestID: {checkout_request_id}''
                   [checkout_request_id])) (\<lambda>_.
          bind_c (lift (py_get stk_callback ''CallbackMetadata'' (JDict []))) (\<lambda>callback_metadata.
          bind_c (lift (py_get callback_metadata ''Item'' (JList []))) (\<lambda>item_value.
          bind_c (lift (py_iter item_value)) (\<lambda>items.
          bind_c (lift (collect_items items [])) (\<lambda>item_details.
            (let mpesa_receipt_number = dict_get item_details (JStr ''MpesaReceiptNumber'');
                 amount = dict_get item_details (JStr ''Amount'');
                 transaction_date = dict_get item_details (JStr ''TransactionDate'');
                 phone_number = dict_get item_details (JStr ''PhoneNumber'')
             in emit (Log INFO
                  ''Payment Details: Receipt={mpesa_receipt_number}, Amount={amount}, Phone={phone_number}, Date={transaction_date}''
                  [mpesa_receipt_number, amount, phone_number, transaction_date])))))))
        else
          emit (Log WARNING
            ''M-Pesa STK Push Failed/Cancelled: ResultCode={result_code}, ResultDesc={result_description}, CheckoutRequestID={checkout_request_id}''
            [result_code, result_description, checkout_request_id]))
       (\<lambda>_. ret ack_success))))))))"

text \<open>Lines 255 to 260: any exception of the body is answered with the failure acknowledgement.\<close>

definition mpesa_callback :: "exn + json \<Rightarrow> reply comp" where
  "mpesa_callback req =
     (case mpesa_callback_try req of
        (Inr r, tr) \<Rightarrow> (Inr r, tr)
      | (Inl e, tr) \<Rightarrow>
          (Inr (ack_failure e),
           tr @ [Log ERROR ''An unexpected error occurred while processing M-Pesa callback.'' []]))"


section \<open>Observations and sample inputs\<close>

text \<open>The provider's envelope around the fields of a callback.\<close>

definition envelope :: "(string \<times> json) list \<Rightarrow> json" where
  "envelope stk = JDict [(''Body'', JDict [(''stkCallback'', JDict stk)])]"

definition example_failed_stk :: "(string \<times> json) list" where
  "example_failed_stk =
     [(''MerchantRequestID'', JStr ''29115-34620561-1''),
      (''CheckoutRequestID'', JStr ''ws_CO_191220191020363925''),
      (''ResultCode'', JInt 1),
      (''ResultDesc'', JStr ''The balance is insufficient for the transaction.'')]"

fun is_dict :: "json \<Rightarrow> bool" where
  "is_dict (JDict kvs) = True"
| "is_dict v = False"

text \<open>An item of the callback metadata that carries a name and a value.\<close>

fun named_item :: "string \<times> json \<Rightarrow> json \<Rightarrow> bool" where
  "named_item (n, v) (JDict kvs) = (map_of kvs ''Name'' = Some (JStr n) \<and> map_of kvs ''Value'' = Some v)"
| "named_item (n, v) other = False"

definition example_paid_items :: "json list" where
  "example_paid_items =
     [JDict [(''Name'', JStr ''Amount''), (''Value'', JInt 1)],
      JDict [(''Name'', JStr ''MpesaReceiptNumber''), (''Value'', JStr ''NLJ7RT61SV'')],
      JDict [(''Name'', JStr ''PhoneNumber''), (''Value'', JInt 254708374149)]]"

definition example_paid_stk :: "(string \<times> json) list" where
  "example_paid_stk =
     [(''CheckoutRequestID'', JStr ''ws_CO_191220191020363925''),
      (''ResultCode'', JInt 0),
      (''ResultDesc'', JStr ''The service request is processed successfully.''),
      (''CallbackMetadata'', JDict [(''Item'', JList example_paid_items)])]"

text \<open>
  The request the program sends to the token endpoint, and the endpoint's reply to it.
\<close>

definition oauth_headers :: "config \<Rightarrow> headers" where
  "oauth_headers cfg =
     [(''Authorization'',
       Literal (''Basic '' @ b64encode (utf8 (CONSUMER_KEY cfg @ '':'' @ CONSUMER_SECRET cfg)))),
      (''Content-Type'', Literal ''application/json'')]"

definition oauth_reply :: "config \<Rightarrow> env \<Rightarrow> string + response" where
  "oauth_reply cfg env = requests_get env (OAUTH_URL cfg) (oauth_headers cfg)"

definition error_status :: "response \<Rightarrow> bool" where
  "error_status r = (400 \<le> status_code r \<and> status_code r < 600)"

text \<open>A sample configuration, and a world whose endpoints and clock give fixed answers.\<close>

definition example_config :: config where
  "example_config =
     \<lparr>CONSUMER_KEY = ''key'', CONSUMER_SECRET = ''secret'', PASSKEY = ''passkey'',
      BUSINESS_SHORT_CODE = ''174379'',
      CALLBACK_URL = ''https://shop.example/api/mpesa_callback'',
      OAUTH_URL = ''https://provider.example/oauth/v1/generate'',
      STKPUSH_URL = ''https://provider.example/mpesa/stkpush/v1/processrequest'',
      TRANSACTION_TYPE = ''CustomerPayBillOnline'',
      ACCOUNT_REFERENCE = ''Order'',
      TRANSACTION_DESC = ''Payment''\<rparr>"

definition stub_response :: "nat \<Rightarrow> string \<Rightarrow> exn + json \<Rightarrow> response" where
  "stub_response st rs j = \<lparr>status_code = st, reason = rs, url = ''https://provider.example/'', json_result = j\<rparr>"

definition example_time :: datetime where
  "example_time = \<lparr>year = 2025, month = 3, day = 9, hour = 7, minute = 5, second = 1, microsecond = 250000\<rparr>"

definition stub_env :: "string + response \<Rightarrow> string + response \<Rightarrow> datetime \<Rightarrow> env" where
  "stub_env g p t = \<lparr>requests_get = (\<lambda>u hs. g), requests_post = (\<lambda>u payload hs. p), datetime_now = (\<lambda>z. t)\<rparr>"

definition token_body :: "json \<Rightarrow> exn + json" where
  "token_body tok = Inr (JDict [(''access_token'', tok), (''expires_in'', JStr ''3599'')])"

text \<open>
  The two fields the view reads from the request body, and the three checks of lines
  117 to 129 taken together.
\<close>

definition request_fields :: "json \<Rightarrow> json \<Rightarrow> json \<Rightarrow> bool" where
  "request_fields data phone_number amount =
     (py_get data ''phoneNumber'' JNull = Inr phone_number \<and> py_get data ''amount'' JNull = Inr amount)"

definition validation_passes :: "json \<Rightarrow> json \<Rightarrow> bool" where
  "validation_passes phone_number amount =
     (truthy phone_number \<and> truthy amount \<and> phone_format_ok phone_number \<and>
      isinstance_int amount \<and> \<not> le_int amount 0)"

text \<open>The effects of a run that reach outside the process: everything but the log lines.\<close>

fun is_log :: "event \<Rightarrow> bool" where
  "is_log (Log l t vs) = True"
| "is_log ev = False"

definition outside_calls :: "event list \<Rightarrow> event list" where
  "outside_calls tr = filter (\<lambda>ev. \<not> is_log ev) tr"

definition payment_request :: "string \<Rightarrow> json \<Rightarrow> json" where
  "payment_request phone amount = JDict [(''phoneNumber'', JStr phone), (''amount'', amount)]"

text \<open>
  The request the program sends to the payment endpoint once the token is there and
  the short code and the phone number have been read as integers, and the endpoint's
  reply to it.
\<close>

definition stk_payload :: "config \<Rightarrow> env \<Rightarrow> int \<Rightarrow> int \<Rightarrow> json \<Rightarrow> json" where
  "stk_payload cfg env short_code phone amount =
     JDict [(''BusinessShortCode'', JInt short_code),
            (''Password'', JStr (snd (fst (generate_mpesa_credentials cfg env)))),
            (''Timestamp'', JStr (fst (fst (generate_mpesa_credentials cfg env)))),
            (''TransactionType'', JStr (TRANSACTION_TYPE cfg)),
            (''Amount'', amount),
            (''PartyA'', JInt phone),
            (''PartyB'', JInt short_code),
            (''PhoneNumber'', JInt phone),
            (''CallBackURL'', JStr (CALLBACK_URL cfg)),
            (''AccountReference'', JStr (ACCOUNT_REFERENCE cfg)),
            (''TransactionDesc'', JStr (TRANSACTION_DESC cfg))]"

definition stk_headers :: "config \<Rightarrow> env \<Rightarrow> headers" where
  "stk_headers cfg env =
     [(''Authorization'', Bearer (fst (get_access_token cfg env))),
      (''Content-Type'', Literal ''application/json'')]"

definition stk_reply :: "config \<Rightarrow> env \<Rightarrow> int \<Rightarrow> int \<Rightarrow> json \<Rightarrow> string + response" where
  "stk_reply cfg env short_code phone amount =
     requests_post env (STKPUSH_URL cfg) (stk_payload cfg env short_code phone amount) (stk_headers cfg env)"

text \<open>The two replies of the view to a decoded answer of the payment endpoint.\<close>

definition accepted_reply :: "(string \<times> json) list \<Rightarrow> reply" where
  "accepted_reply kvs =
     (JDict [(''success'', JBool True),
             (''message'', (case map_of kvs ''CustomerMessage'' of
                  Some v \<Rightarrow> v
                | None \<Rightarrow> JStr ''STK Push initiated successfully! Please check your phone for the M-Pesa prompt.'')),
             (''CheckoutRequestID'', (case map_of kvs ''CheckoutRequestID'' of Some v \<Rightarrow> v | None \<Rightarrow> JNull)),
             (''ResponseCode'', JStr ''0'')], 200)"

definition rejected_reply :: "(string \<times> json) list \<Rightarrow> reply" where
  "rejected_reply kvs =
     (JDict [(''success'', JBool False),
             (''message'', (case map_of kvs ''ResponseDescription'' of
                  Some v \<Rightarrow> v
                | None \<Rightarrow> JStr ''STK Push initiation failed due to an unknown M-Pesa error.'')),
             (''MpesaResponse'', JDict kvs)], 400)"

definition example_token_reply :: "string + response" where
  "example_token_reply = Inr (stub_response 200 ''OK'' (token_body (JStr ''c9SQxWWhmdVRlyh0zh8gZDTkubVF'')))"

definition example_accepted :: "(string \<times> json) list" where
  "example_accepted =
     [(''MerchantRequestID'', JStr ''29115-34620561-1''),
      (''CheckoutRequestID'', JStr ''abc''),
      (''ResponseCode'', JStr ''0''),
      (''ResponseDescription'', JStr ''Success. Request accepted for processing''),
      (''CustomerMessage'', JStr ''Success. Request accepted for processing'')]"

definition example_rejected :: "(string \<times> json) list" where
  "example_rejected =
     [(''ResponseCode'', JStr ''1''), (''ResponseDescription'', JStr ''insufficient permissions'')]"

text \<open>
  The fields of a \<^verbatim>\<open>datetime\<close> within their ranges, two times that fall in the same
  clock second, and the format YYYYMMDDHHmmss written out digit by digit.
\<close>

definition valid_datetime :: "datetime \<Rightarrow> bool" where
  "valid_datetime t =
     (1 \<le> year t \<and> year t \<le> 9999 \<and> 1 \<le> month t \<and> month t \<le> 12 \<and> 1 \<le> day t \<and> day t \<le> 31 \<and>
      hour t < 24 \<and> minute t < 60 \<and> second t < 60)"

definition same_second :: "datetime \<Rightarrow> datetime \<Rightarrow> bool" where
  "same_second t t' =
     (year t = year t' \<and> month t = month t' \<and> day t = day t' \<and>
      hour t = hour t' \<and> minute t = minute t' \<and> second t = second t')"

definition two_digits :: "nat \<Rightarrow> string" where
  "two_digits n = [digit_char (n div 10), digit_char (n mod 10)]"

definition four_digits :: "nat \<Rightarrow> string" where
  "four_digits n =
     [digit_char (n div 1000), digit_char (n div 100 mod 10), digit_char (n div 10 mod 10), digit_char (n mod 10)]"

definition yyyymmddhhmmss :: "datetime \<Rightarrow> string" where
  "yyyymmddhhmmss t =
     four_digits (year t) @ two_digits (month t) @ two_digits (day t) @
     two_digits (hour t) @ two_digits (minute t) @ two_digits (second t)"

definition example_time_same_second :: datetime where
  "example_time_same_second = \<lparr>year = 2025, month = 3, day = 9, hour = 7, minute = 5, second = 1, microsecond = 999999\<rparr>"

definition example_time_next_second :: datetime where
  "example_time_next_second = \<lparr>year = 2025, month = 3, day = 9, hour = 7, minute = 5, second = 2, microsecond = 0\<rparr>"

section \<open>Proof tools\<close>

lemma bind_c_Inl [simp]: "bind_c (Inl e, tr) f = (Inl e, tr)"
  by (simp add: bind_c_def)

lemma bind_c_Inr [simp]: "bind_c (Inr x, tr) f = (fst (f x), tr @ snd (f x))"
  by (simp add: bind_c_def split: prod.splits)

lemma bind_c_lift_Inr [simp]: "bind_c (lift (Inr x)) f = f x"
  by (simp add: lift_def)

lemma bind_c_lift_Inl [simp]: "bind_c (lift (Inl e)) f = (Inl e, [])"
  by (simp add: lift_def)

lemma bind_c_emit [simp]: "bind_c (emit ev) f = (fst (f ()), ev # snd (f ()))"
  by (simp add: emit_def)

lemma fst_ret [simp]: "fst (ret x) = Inr x"
  by (simp add: ret_def)

lemma snd_ret [simp]: "snd (ret x) = []"
  by (simp add: ret_def)

lemma fst_emit [simp]: "fst (emit ev) = Inr ()"
  by (simp add: emit_def)

lemma snd_emit [simp]: "snd (emit ev) = [ev]"
  by (simp add: emit_def)

section \<open>The callback: a failed payment\<close>

text \<open>
  Claim C4. A callback with a well-formed envelope whose ResultCode does not compare
  equal to 0 (a failed or cancelled payment) is answered with the success
  acknowledgement: HTTP status 200 and a body with ResultCode 0. Whether metadata is
  present plays no part.
\<close>

theorem callback_failed_payment_acknowledged:
  assumes "map_of kvs ''Body'' = Some (JDict body)"
      and "map_of body ''stkCallback'' = Some (JDict stk)"
      and "map_of stk ''ResultCode'' = Some rc"
      and "\<not> eq_int rc 0"
  shows "fst (mpesa_callback (Inr (JDict kvs))) =
           Inr (JDict [(''ResultCode'', JInt 0), (''ResultDesc'', JStr ''Callback received successfully'')], 200)"
  using assms
  by (simp add: mpesa_callback_def mpesa_callback_try_def ack_success_def split: prod.splits)

theorem callback_failed_payment_acknowledged_witness:
  "map_of example_failed_stk ''ResultCode'' = Some (JInt 1) \<and> \<not> eq_int (JInt 1) 0 \<and>
   fst (mpesa_callback (Inr (envelope example_failed_stk))) =
     Inr (JDict [(''ResultCode'', JInt 0), (''ResultDesc'', JStr ''Callback received successfully'')], 200)"
proof -
  have rc: "map_of example_failed_stk ''ResultCode'' = Some (JInt 1)"
    by (simp add: example_failed_stk_def)
  have nz: "\<not> eq_int (JInt 1) 0"
    by (simp add: eq_int_def)
  have "fst (mpesa_callback (Inr (JDict [(''Body'', JDict [(''stkCallback'', JDict example_failed_stk)])]))) =
     Inr (JDict [(''ResultCode'', JInt 0), (''ResultDesc'', JStr ''Callback received successfully'')], 200)"
    by (rule callback_failed_payment_acknowledged
          [of "[(''Body'', JDict [(''stkCallback'', JDict example_failed_stk)])]"
              "[(''stkCallback'', JDict example_failed_stk)]" example_failed_stk "JInt 1"])
       (simp_all add: rc nz)
  with rc nz show ?thesis
    by (simp add: envelope_def)
qed

section \<open>The callback: a body without the envelope\<close>

lemma fst_bind_c_Inr: "fst (bind_c m f) = Inr y \<longleftrightarrow> (\<exists>x. fst m = Inr x \<and> fst (f x) = Inr y)"
  by (cases m; cases "fst m") (auto simp: bind_c_def split: prod.splits)

lemma py_get_not_dict: "\<not> is_dict v \<Longrightarrow> \<exists>m. py_get v k d = Inl (Exn AttributeError m)"
  by (cases v) simp_all

lemma mpesa_callback_try_reply: "fst (mpesa_callback_try req) = Inr r \<Longrightarrow> r = ack_success"
  by (auto simp: mpesa_callback_try_def fst_bind_c_Inr)

lemma mpesa_callback_total:
  "\<exists>r tr. mpesa_callback req = (Inr r, tr) \<and> (r = ack_success \<or> (\<exists>e. r = ack_failure e))"
proof (cases "mpesa_callback_try req")
  case (Pair a tr)
  show ?thesis
  proof (cases a)
    case (Inl e)
    with Pair show ?thesis by (auto simp: mpesa_callback_def)
  next
    case (Inr r)
    with Pair mpesa_callback_try_reply [of req r] show ?thesis
      by (auto simp: mpesa_callback_def)
  qed
qed

lemma callback_failure: "fst (mpesa_callback_try req) = Inl e \<Longrightarrow> fst (mpesa_callback req) = Inr (ack_failure e)"
  by (cases "mpesa_callback_try req") (auto simp: mpesa_callback_def)

text \<open>
  Claim C2, as amended. Whatever the request, \<^const>\<open>mpesa_callback\<close> returns a reply and
  raises nothing: the reply is the success or the failure acknowledgement. A JSON
  object with no \<^verbatim>\<open>Body\<close> member, or whose \<^verbatim>\<open>Body\<close> object has no \<^verbatim>\<open>stkCallback\<close> member,
  gets the success acknowledgement (status 200, ResultCode 0), through the empty
  defaults of the two \<^verbatim>\<open>get\<close> calls. The failure acknowledgement (status 500, ResultCode 1
  with a description) answers a request whose JSON cannot be read, a body that is not
  an object, and a \<^verbatim>\<open>Body\<close> or \<^verbatim>\<open>stkCallback\<close> member that is present but not an object.
\<close>

theorem callback_missing_envelope:
  "(\<exists>r tr. mpesa_callback req = (Inr r, tr) \<and> (r = ack_success \<or> (\<exists>e. r = ack_failure e))) \<and>
   (map_of kvs ''Body'' = None \<longrightarrow> fst (mpesa_callback (Inr (JDict kvs))) = Inr ack_success) \<and>
   (map_of kvs ''Body'' = Some (JDict body) \<and> map_of body ''stkCallback'' = None \<longrightarrow>
      fst (mpesa_callback (Inr (JDict kvs))) = Inr ack_success) \<and>
   fst (mpesa_callback (Inl e)) = Inr (ack_failure e) \<and>
   (\<not> is_dict data \<longrightarrow> (\<exists>m. fst (mpesa_callback (Inr data)) = Inr (ack_failure (Exn AttributeError m)))) \<and>
   (map_of kvs ''Body'' = Some b \<and> \<not> is_dict b \<longrightarrow>
      (\<exists>m. fst (mpesa_callback (Inr (JDict kvs))) = Inr (ack_failure (Exn AttributeError m)))) \<and>
   (map_of kvs ''Body'' = Some (JDict body) \<and> map_of body ''stkCallback'' = Some c \<and> \<not> is_dict c \<longrightarrow>
      (\<exists>m. fst (mpesa_callback (Inr (JDict kvs))) = Inr (ack_failure (Exn AttributeError m))))"
proof (intro conjI impI)
  show "\<exists>r tr. mpesa_callback req = (Inr r, tr) \<and> (r = ack_success \<or> (\<exists>e. r = ack_failure e))"
    by (rule mpesa_callback_total)
next
  assume "map_of kvs ''Body'' = None"
  then show "fst (mpesa_callback (Inr (JDict kvs))) = Inr ack_success"
    by (simp add: mpesa_callback_def mpesa_callback_try_def eq_int_def split: prod.splits)
next
  assume "map_of kvs ''Body'' = Some (JDict body) \<and> map_of body ''stkCallback'' = None"
  then show "fst (mpesa_callback (Inr (JDict kvs))) = Inr ack_success"
    by (simp add: mpesa_callback_def mpesa_callback_try_def eq_int_def split: prod.splits)
next
  show "fst (mpesa_callback (Inl e)) = Inr (ack_failure e)"
    by (simp add: mpesa_callback_def mpesa_callback_try_def)
next
  assume "\<not> is_dict data"
  then obtain m where "py_get data ''Body'' (JDict []) = Inl (Exn AttributeError m)"
    using py_get_not_dict by blast
  then have "fst (mpesa_callback_try (Inr data)) = Inl (Exn AttributeError m)"
    by (simp add: mpesa_callback_try_def)
  then show "\<exists>m. fst (mpesa_callback (Inr data)) = Inr (ack_failure (Exn AttributeError m))"
    using callback_failure by blast
next
  assume a: "map_of kvs ''Body'' = Some b \<and> \<not> is_dict b"
  then obtain m where "py_get b ''stkCallback'' (JDict []) = Inl (Exn AttributeError m)"
    using py_get_not_dict by blast
  with a have "fst (mpesa_callback_try (Inr (JDict kvs))) = Inl (Exn AttributeError m)"
    by (simp add: mpesa_callback_try_def)
  then show "\<exists>m. fst (mpesa_callback (Inr (JDict kvs))) = Inr (ack_failure (Exn AttributeError m))"
    using callback_failure by blast
next
  assume a: "map_of kvs ''Body'' = Some (JDict body) \<and> map_of body ''stkCallback'' = Some c \<and> \<not> is_dict c"
  then obtain m where "py_get c ''ResultCode'' JNull = Inl (Exn AttributeError m)"
    using py_get_not_dict by blast
  with a have "fst (mpesa_callback_try (Inr (JDict kvs))) = Inl (Exn AttributeError m)"
    by (simp add: mpesa_callback_try_def)
  then show "\<exists>m. fst (mpesa_callback (Inr (JDict kvs))) = Inr (ack_failure (Exn AttributeError m))"
    using callback_failure by blast
qed

text \<open>
  The claim as first stated fails at the empty object: the body has no envelope, and
  the reply is the success acknowledgement.
\<close>

theorem callback_missing_envelope_counterexample:
  "fst (mpesa_callback (Inr (JDict []))) =
     Inr (JDict [(''ResultCode'', JInt 0), (''ResultDesc'', JStr ''Callback received successfully'')], 200)"
  by (simp add: mpesa_callback_def mpesa_callback_try_def eq_int_def ack_success_def)

theorem callback_missing_envelope_witness:
  "fst (mpesa_callback (Inr (JDict [(''Body'', JDict [])]))) = Inr ack_success \<and>
   fst (mpesa_callback (Inr (JDict [(''Other'', JInt 1)]))) = Inr ack_success \<and>
   (\<exists>m. fst (mpesa_callback (Inr (JList []))) = Inr (ack_failure (Exn AttributeError m))) \<and>
   (\<exists>m. fst (mpesa_callback (Inr (JDict [(''Body'', JNull)]))) = Inr (ack_failure (Exn AttributeError m))) \<and>
   (\<exists>m. fst (mpesa_callback (Inr (JDict [(''Body'', JDict [(''stkCallback'', JStr ''x'')])])))
          = Inr (ack_failure (Exn AttributeError m)))"
proof -
  note t = callback_missing_envelope
  have 1: "fst (mpesa_callback (Inr (JDict [(''Body'', JDict [])]))) = Inr ack_success"
    using t [of "Inr JNull" "[(''Body'', JDict [])]" "[]"] by simp
  have 2: "fst (mpesa_callback (Inr (JDict [(''Other'', JInt 1)]))) = Inr ack_success"
    using t [of "Inr JNull" "[(''Other'', JInt 1)]"] by simp
  have 3: "\<exists>m. fst (mpesa_callback (Inr (JList []))) = Inr (ack_failure (Exn AttributeError m))"
    using t [where data = "JList []"] by simp
  have 4: "\<exists>m. fst (mpesa_callback (Inr (JDict [(''Body'', JNull)]))) = Inr (ack_failure (Exn AttributeError m))"
    using t [where kvs = "[(''Body'', JNull)]" and b = JNull] by simp
  have 5: "\<exists>m. fst (mpesa_callback (Inr (JDict [(''Body'', JDict [(''stkCallback'', JStr ''x'')])])))
          = Inr (ack_failure (Exn AttributeError m))"
    using t [where kvs = "[(''Body'', JDict [(''stkCallback'', JStr ''x'')])]"
                and body = "[(''stkCallback'', JStr ''x'')]" and c = "JStr ''x''"] by simp
  from 1 2 3 4 5 show ?thesis by blast
qed

section \<open>The callback: the metadata of a successful payment\<close>

lemma key_eq_JStr [simp]: "key_eq k (JStr n) \<longleftrightarrow> k = JStr n"
  by (cases k) (simp_all add: key_eq_def)

lemma dict_lookup_update_JStr:
  "dict_lookup (dict_update d (JStr n) v) (JStr n') = (if n = n' then Some v else dict_lookup d (JStr n'))"
  by (induction d) auto

lemma collect_items_named:
  "list_all2 named_item nvs items \<Longrightarrow>
   \<exists>d. collect_items items d0 = Inr d \<and>
       (\<forall>n. dict_lookup d (JStr n) =
              (case map_of (rev nvs) n of Some v \<Rightarrow> Some v | None \<Rightarrow> dict_lookup d0 (JStr n)))"
proof (induction nvs items arbitrary: d0 rule: list_all2_induct)
  case Nil
  then show ?case by simp
next
  case (Cons nv nvs item items)
  obtain n v where nv: "nv = (n, v)"
    by (cases nv)
  from Cons.hyps(1) nv obtain kvs where item: "item = JDict kvs"
    and name: "map_of kvs ''Name'' = Some (JStr n)" and val: "map_of kvs ''Value'' = Some v"
    by (cases item) auto
  from Cons.IH [of "dict_update d0 (JStr n) v"] obtain d where
    d: "collect_items items (dict_update d0 (JStr n) v) = Inr d"
    and look: "\<And>m. dict_lookup d (JStr m) =
        (case map_of (rev nvs) m of Some w \<Rightarrow> Some w
         | None \<Rightarrow> dict_lookup (dict_update d0 (JStr n) v) (JStr m))"
    by blast
  have "collect_items (item # items) d0 = Inr d"
    using item name val d by (simp add: dict_setitem_def)
  moreover have "dict_lookup d (JStr m) =
      (case map_of (rev (nv # nvs)) m of Some w \<Rightarrow> Some w | None \<Rightarrow> dict_lookup d0 (JStr m))" for m
    using look [of m] nv
    by (auto simp: dict_lookup_update_JStr map_add_def split: option.splits)
  ultimately show ?case by blast
qed

lemma map_of_rev_distinct:
  "distinct (map fst nvs) \<Longrightarrow> (n, v) \<in> set nvs \<Longrightarrow> map_of (rev nvs) n = Some v"
  by (simp add: distinct_rev rev_map [symmetric])

text \<open>
  Claim C7. For a callback whose envelope has a ResultCode that compares equal to 0 and
  a CallbackMetadata list of Name/Value items, the loop builds a flat mapping in which
  every Name is bound to the Value of the last item of that Name; when the Names are
  pairwise different, every item's Value is found under its Name. The four values the
  handler then reads are the ones it logs, and the reply is the success
  acknowledgement with status 200.
\<close>

theorem callback_projects_metadata:
  assumes "map_of kvs ''Body'' = Some (JDict body)"
      and "map_of body ''stkCallback'' = Some (JDict stk)"
      and "map_of stk ''ResultCode'' = Some rc"
      and "eq_int rc 0"
      and "map_of stk ''CallbackMetadata'' = Some (JDict md)"
      and "map_of md ''Item'' = Some (JList items)"
      and "list_all2 named_item nvs items"
  shows "\<exists>d. collect_items items [] = Inr d \<and>
           (\<forall>n. dict_lookup d (JStr n) = map_of (rev nvs) n) \<and>
           (distinct (map fst nvs) \<longrightarrow> (\<forall>nv \<in> set nvs. dict_get d (JStr (fst nv)) = snd nv)) \<and>
           fst (mpesa_callback (Inr (JDict kvs))) =
             Inr (JDict [(''ResultCode'', JInt 0), (''ResultDesc'', JStr ''Callback received successfully'')], 200) \<and>
           Log INFO
             ''Payment Details: Receipt={mpesa_receipt_number}, Amount={amount}, Phone={phone_number}, Date={transaction_date}''
             [dict_get d (JStr ''MpesaReceiptNumber''), dict_get d (JStr ''Amount''),
              dict_get d (JStr ''PhoneNumber''), dict_get d (JStr ''TransactionDate'')]
             \<in> set (snd (mpesa_callback (Inr (JDict kvs))))"
proof -
  from collect_items_named [OF assms(7), of "[]"] obtain d where
    d: "collect_items items [] = Inr d"
    and look: "\<And>n. dict_lookup d (JStr n) = map_of (rev nvs) n"
    by (auto split: option.splits) (metis option.exhaust option.simps(4) option.simps(5))
  have dist: "dict_get d (JStr (fst nv)) = snd nv" if "distinct (map fst nvs)" "nv \<in> set nvs" for nv
    using that look [of "fst nv"] map_of_rev_distinct [of nvs "fst nv" "snd nv"]
    by (simp add: dict_get_def)
  have run: "mpesa_callback_try (Inr (JDict kvs)) =
      (Inr ack_success,
       [Log INFO ''Received M-Pesa Callback: {callback_data}'' [JDict kvs],
        Log INFO ''M-Pesa STK Push successful for CheckoutRequestID: {checkout_request_id}''
          [case map_of stk ''CheckoutRequestID'' of Some v \<Rightarrow> v | None \<Rightarrow> JNull],
        Log INFO
          ''Payment Details: Receipt={mpesa_receipt_number}, Amount={amount}, Phone={phone_number}, Date={transaction_date}''
          [dict_get d (JStr ''MpesaReceiptNumber''), dict_get d (JStr ''Amount''),
           dict_get d (JStr ''PhoneNumber''), dict_get d (JStr ''TransactionDate'')]])"
    using assms(1-6) d
    by (simp add: mpesa_callback_try_def Let_def prod_eq_iff)
  have "fst (mpesa_callback (Inr (JDict kvs))) = Inr ack_success"
    by (simp add: mpesa_callback_def run)
  moreover have "Log INFO
      ''Payment Details: Receipt={mpesa_receipt_number}, Amount={amount}, Phone={phone_number}, Date={transaction_date}''
      [dict_get d (JStr ''MpesaReceiptNumber''), dict_get d (JStr ''Amount''),
       dict_get d (JStr ''PhoneNumber''), dict_get d (JStr ''TransactionDate'')]
      \<in> set (snd (mpesa_callback (Inr (JDict kvs))))"
    by (simp add: mpesa_callback_def run)
  ultimately show ?thesis
    using d look dist by (auto simp: ack_success_def)
qed

theorem callback_projects_metadata_witness:
  "(\<exists>d. collect_items example_paid_items [] = Inr d \<and>
        dict_get d (JStr ''MpesaReceiptNumber'') = JStr ''NLJ7RT61SV'' \<and>
        dict_get d (JStr ''Amount'') = JInt 1 \<and>
        dict_get d (JStr ''PhoneNumber'') = JInt 254708374149) \<and>
   fst (mpesa_callback (Inr (envelope example_paid_stk))) =
     Inr (JDict [(''ResultCode'', JInt 0), (''ResultDesc'', JStr ''Callback received successfully'')], 200)"
proof -
  let ?nvs = "[(''Amount'', JInt 1), (''MpesaReceiptNumber'', JStr ''NLJ7RT61SV''),
               (''PhoneNumber'', JInt 254708374149)]"
  have items: "list_all2 named_item ?nvs example_paid_items"
    by (simp add: example_paid_items_def)
  have zero: "eq_int (JInt 0) 0"
    by (simp add: eq_int_def)
  have dist: "distinct (map fst ?nvs)"
    by simp
  from callback_projects_metadata
    [of "[(''Body'', JDict [(''stkCallback'', JDict example_paid_stk)])]"
        "[(''stkCallback'', JDict example_paid_stk)]" example_paid_stk "JInt 0"
        "[(''Item'', JList example_paid_items)]" example_paid_items ?nvs, OF _ _ _ zero _ _ items]
  obtain d where d: "collect_items example_paid_items [] = Inr d"
    and each: "distinct (map fst ?nvs) \<longrightarrow> (\<forall>nv \<in> set ?nvs. dict_get d (JStr (fst nv)) = snd nv)"
    and reply: "fst (mpesa_callback (Inr (JDict [(''Body'', JDict [(''stkCallback'', JDict example_paid_stk)])]))) =
      Inr (JDict [(''ResultCode'', JInt 0), (''ResultDesc'', JStr ''Callback received successfully'')], 200)"
    by (auto simp: example_paid_stk_def)
  from each dist have "dict_get d (JStr ''MpesaReceiptNumber'') = JStr ''NLJ7RT61SV''"
    and "dict_get d (JStr ''Amount'') = JInt 1"
    and "dict_get d (JStr ''PhoneNumber'') = JInt 254708374149"
    by simp_all
  with d reply show ?thesis
    by (auto simp: envelope_def)
qed

section \<open>The access token: outcomes\<close>

lemma raise_for_status_ok: "\<not> error_status r \<Longrightarrow> raise_for_status r = Inr ()"
  by (auto simp: raise_for_status_def error_status_def)

lemma raise_for_status_error:
  "error_status r \<Longrightarrow>
   raise_for_status r =
     Inl (Exn HTTPError (str_of_nat (status_code r) @
            (if status_code r < 500 then '' Client Error: '' else '' Server Error: '') @
            reason r @ '' for url: '' @ url r))"
  by (auto simp: raise_for_status_def error_status_def)

lemma get_access_token_transport:
  "oauth_reply cfg env = Inl m \<Longrightarrow>
   get_access_token cfg env =
     (JNull, [HttpGet (OAUTH_URL cfg) (oauth_headers cfg),
              Log ERROR ''Network or API error while getting access token: {e}'' []])"
  by (simp add: get_access_token_def get_access_token_try_def http_get_def oauth_reply_def
      oauth_headers_def)

lemma get_access_token_status:
  "oauth_reply cfg env = Inr r \<Longrightarrow> error_status r \<Longrightarrow>
   get_access_token cfg env =
     (JNull, [HttpGet (OAUTH_URL cfg) (oauth_headers cfg),
              Log ERROR ''Network or API error while getting access token: {e}'' []])"
  by (simp add: get_access_token_def get_access_token_try_def http_get_def oauth_reply_def
      oauth_headers_def raise_for_status_error)

lemma get_access_token_undecodable:
  "oauth_reply cfg env = Inr r \<Longrightarrow> \<not> error_status r \<Longrightarrow> json_result r = Inl e \<Longrightarrow>
   fst (get_access_token cfg env) = JNull"
  by (simp add: get_access_token_def get_access_token_try_def http_get_def oauth_reply_def
      oauth_headers_def raise_for_status_ok)

lemma get_access_token_json:
  "oauth_reply cfg env = Inr r \<Longrightarrow> \<not> error_status r \<Longrightarrow> json_result r = Inr (JDict kvs) \<Longrightarrow>
   get_access_token cfg env =
     (case map_of kvs ''access_token'' of
        Some tok \<Rightarrow>
          if truthy tok
          then (tok, [HttpGet (OAUTH_URL cfg) (oauth_headers cfg),
                      Log INFO ''Successfully obtained M-Pesa access token.'' []])
          else (JNull, [HttpGet (OAUTH_URL cfg) (oauth_headers cfg),
                        Log ERROR ''Access token not found in response: {result}'' [JDict kvs]])
      | None \<Rightarrow>
          (JNull, [HttpGet (OAUTH_URL cfg) (oauth_headers cfg),
                   Log ERROR ''Access token not found in response: {result}'' [JDict kvs]]))"
  by (simp add: get_access_token_def get_access_token_try_def http_get_def oauth_reply_def
      oauth_headers_def raise_for_status_ok ret_def split: option.splits)

text \<open>
  Claim C5, as amended. \<^const>\<open>get_access_token\<close> returns the provider's
  \<^verbatim>\<open>access_token\<close> value unchanged when the token endpoint replies with a status outside
  400 to 599 and a JSON object whose \<^verbatim>\<open>access_token\<close> is truthy (a non-empty string). It
  returns \<^verbatim>\<open>None\<close>, and raises nothing, when the request fails in transport, when the
  status is from 400 to 599 whatever the body, when the body is not JSON, when the
  JSON object has no \<^verbatim>\<open>access_token\<close>, and when the \<^verbatim>\<open>access_token\<close> is falsy.
\<close>

theorem access_token_outcomes:
  "(oauth_reply cfg env = Inr r \<and> \<not> error_status r \<and> json_result r = Inr (JDict kvs) \<and>
      map_of kvs ''access_token'' = Some tok \<and> truthy tok
      \<longrightarrow> fst (get_access_token cfg env) = tok) \<and>
   (oauth_reply cfg env = Inl m \<longrightarrow> fst (get_access_token cfg env) = JNull) \<and>
   (oauth_reply cfg env = Inr r \<and> error_status r \<longrightarrow> fst (get_access_token cfg env) = JNull) \<and>
   (oauth_reply cfg env = Inr r \<and> json_result r = Inl e \<longrightarrow> fst (get_access_token cfg env) = JNull) \<and>
   (oauth_reply cfg env = Inr r \<and> json_result r = Inr (JDict kvs) \<and> map_of kvs ''access_token'' = None
      \<longrightarrow> fst (get_access_token cfg env) = JNull) \<and>
   (oauth_reply cfg env = Inr r \<and> json_result r = Inr (JDict kvs) \<and>
      map_of kvs ''access_token'' = Some tok \<and> \<not> truthy tok
      \<longrightarrow> fst (get_access_token cfg env) = JNull)"
proof (intro conjI impI)
  assume "oauth_reply cfg env = Inr r \<and> \<not> error_status r \<and> json_result r = Inr (JDict kvs) \<and>
      map_of kvs ''access_token'' = Some tok \<and> truthy tok"
  then show "fst (get_access_token cfg env) = tok"
    by (simp add: get_access_token_json)
next
  assume "oauth_reply cfg env = Inl m"
  then show "fst (get_access_token cfg env) = JNull"
    by (simp add: get_access_token_transport)
next
  assume "oauth_reply cfg env = Inr r \<and> error_status r"
  then show "fst (get_access_token cfg env) = JNull"
    by (simp add: get_access_token_status)
next
  assume a: "oauth_reply cfg env = Inr r \<and> json_result r = Inl e"
  show "fst (get_access_token cfg env) = JNull"
  proof (cases "error_status r")
    case True
    with a show ?thesis by (simp add: get_access_token_status)
  next
    case False
    with a show ?thesis by (simp add: get_access_token_undecodable)
  qed
next
  assume a: "oauth_reply cfg env = Inr r \<and> json_result r = Inr (JDict kvs) \<and> map_of kvs ''access_token'' = None"
  show "fst (get_access_token cfg env) = JNull"
  proof (cases "error_status r")
    case True
    with a show ?thesis by (simp add: get_access_token_status)
  next
    case False
    with a show ?thesis by (simp add: get_access_token_json)
  qed
next
  assume a: "oauth_reply cfg env = Inr r \<and> json_result r = Inr (JDict kvs) \<and>
      map_of kvs ''access_token'' = Some tok \<and> \<not> truthy tok"
  show "fst (get_access_token cfg env) = JNull"
  proof (cases "error_status r")
    case True
    with a show ?thesis by (simp add: get_access_token_status)
  next
    case False
    with a show ?thesis by (simp add: get_access_token_json)
  qed
qed

text \<open>
  The claim as first stated fails twice. A reply with status 200 whose \<^verbatim>\<open>access_token\<close>
  is the empty string has the field, and the result is \<^verbatim>\<open>None\<close>. A reply with status
  300, which is not a 2xx status, and a token in its body yields the token.
\<close>

theorem access_token_outcomes_counterexample:
  "fst (get_access_token example_config
          (stub_env (Inr (stub_response 200 ''OK'' (token_body (JStr '''')))) (Inl ''unused'') example_time))
     = JNull \<and>
   fst (get_access_token example_config
          (stub_env (Inr (stub_response 300 ''Multiple Choices'' (token_body (JStr ''c9SQxWWhmdVRlyh0zh8gZDTkubVF''))))
             (Inl ''unused'') example_time))
     = JStr ''c9SQxWWhmdVRlyh0zh8gZDTkubVF''"
  by (simp add: get_access_token_def get_access_token_try_def http_get_def raise_for_status_def
      stub_env_def stub_response_def token_body_def ret_def)

theorem access_token_outcomes_witness:
  "fst (get_access_token example_config
          (stub_env (Inr (stub_response 200 ''OK'' (token_body (JStr ''c9SQxWWhmdVRlyh0zh8gZDTkubVF''))))
             (Inl ''unused'') example_time))
     = JStr ''c9SQxWWhmdVRlyh0zh8gZDTkubVF'' \<and>
   fst (get_access_token example_config (stub_env (Inl ''Connection refused'') (Inl ''unused'') example_time))
     = JNull \<and>
   fst (get_access_token example_config
          (stub_env (Inr (stub_response 500 ''Internal Server Error''
             (token_body (JStr ''c9SQxWWhmdVRlyh0zh8gZDTkubVF'')))) (Inl ''unused'') example_time))
     = JNull \<and>
   fst (get_access_token example_config
          (stub_env (Inr (stub_response 200 ''OK'' (Inl (Exn JSONDecodeError ''Expecting value''))))
             (Inl ''unused'') example_time))
     = JNull \<and>
   fst (get_access_token example_config
          (stub_env (Inr (stub_response 200 ''OK'' (Inr (JDict [(''error'', JStr ''invalid_client'')]))))
             (Inl ''unused'') example_time))
     = JNull \<and>
   fst (get_access_token example_config
          (stub_env (Inr (stub_response 200 ''OK'' (token_body JNull))) (Inl ''unused'') example_time))
     = JNull"
proof -
  note t = access_token_outcomes
  note defs = oauth_reply_def stub_env_def stub_response_def token_body_def error_status_def
  let ?tok = "JStr ''c9SQxWWhmdVRlyh0zh8gZDTkubVF''"
  have 1: "fst (get_access_token example_config
          (stub_env (Inr (stub_response 200 ''OK'' (token_body ?tok))) (Inl ''unused'') example_time)) = ?tok"
    using t [of example_config
        "stub_env (Inr (stub_response 200 ''OK'' (token_body ?tok))) (Inl ''unused'') example_time"
        "stub_response 200 ''OK'' (token_body ?tok)"
        "[(''access_token'', ?tok), (''expires_in'', JStr ''3599'')]" ?tok]
    by (simp add: defs)
  have 2: "fst (get_access_token example_config
          (stub_env (Inl ''Connection refused'') (Inl ''unused'') example_time)) = JNull"
    using t [of example_config "stub_env (Inl ''Connection refused'') (Inl ''unused'') example_time"
        _ _ _ "''Connection refused''"]
    by (simp add: defs)
  have 3: "fst (get_access_token example_config
          (stub_env (Inr (stub_response 500 ''Internal Server Error'' (token_body ?tok)))
             (Inl ''unused'') example_time)) = JNull"
    using t [of example_config
        "stub_env (Inr (stub_response 500 ''Internal Server Error'' (token_body ?tok))) (Inl ''unused'') example_time"
        "stub_response 500 ''Internal Server Error'' (token_body ?tok)"]
    by (simp add: defs)
  have 4: "fst (get_access_token example_config
          (stub_env (Inr (stub_response 200 ''OK'' (Inl (Exn JSONDecodeError ''Expecting value''))))
             (Inl ''unused'') example_time)) = JNull"
    using t [of example_config
        "stub_env (Inr (stub_response 200 ''OK'' (Inl (Exn JSONDecodeError ''Expecting value''))))
           (Inl ''unused'') example_time"
        "stub_response 200 ''OK'' (Inl (Exn JSONDecodeError ''Expecting value''))" _ _ _
        "Exn JSONDecodeError ''Expecting value''"]
    by (simp add: defs)
  have 5: "fst (get_access_token example_config
          (stub_env (Inr (stub_response 200 ''OK'' (Inr (JDict [(''error'', JStr ''invalid_client'')]))))
             (Inl ''unused'') example_time)) = JNull"
    using t [of example_config
        "stub_env (Inr (stub_response 200 ''OK'' (Inr (JDict [(''error'', JStr ''invalid_client'')]))))
           (Inl ''unused'') example_time"
        "stub_response 200 ''OK'' (Inr (JDict [(''error'', JStr ''invalid_client'')]))"
        "[(''error'', JStr ''invalid_client'')]"]
    by (simp add: defs)
  have 6: "fst (get_access_token example_config
          (stub_env (Inr (stub_response 200 ''OK'' (token_body JNull))) (Inl ''unused'') example_time)) = JNull"
    using t [of example_config
        "stub_env (Inr (stub_response 200 ''OK'' (token_body JNull))) (Inl ''unused'') example_time"
        "stub_response 200 ''OK'' (token_body JNull)"
        "[(''access_token'', JNull), (''expires_in'', JStr ''3599'')]" JNull]
    by (simp add: defs)
  from 1 2 3 4 5 6 show ?thesis by blast
qed

section \<open>Initiating a payment: the token is not available\<close>

lemma initiate_stk_push_valid:
  assumes "request_fields data phone_number amount" and "validation_passes phone_number amount"
  shows "initiate_stk_push cfg env (Inr data) =
           (fst (stk_push_handlers (stk_push_try cfg env phone_number amount)),
            Log INFO ''Received STK Push request from frontend: Phone={phone_number}, Amount={amount}''
              [phone_number, amount]
            # snd (stk_push_handlers (stk_push_try cfg env phone_number amount)))"
  using assms
  by (simp add: initiate_stk_push_def request_fields_def validation_passes_def)

lemma outside_calls_get_access_token:
  "outside_calls (snd (get_access_token cfg env)) = [HttpGet (OAUTH_URL cfg) (oauth_headers cfg)]"
proof (cases "oauth_reply cfg env")
  case (Inl m)
  then show ?thesis
    by (simp add: get_access_token_transport outside_calls_def)
next
  case (Inr r)
  show ?thesis
  proof (cases "error_status r")
    case True
    with Inr show ?thesis
      by (simp add: get_access_token_status outside_calls_def)
  next
    case False
    note ok = raise_for_status_ok [OF False]
    show ?thesis
    proof (cases "json_result r")
      case (Inl e)
      with Inr ok show ?thesis
        by (simp add: get_access_token_def get_access_token_try_def http_get_def oauth_reply_def
            oauth_headers_def outside_calls_def)
    next
      case result: (Inr b)
      show ?thesis
      proof (cases "py_get b ''access_token'' JNull")
        case (Inl e)
        with Inr ok result show ?thesis
          by (simp add: get_access_token_def get_access_token_try_def http_get_def oauth_reply_def
              oauth_headers_def outside_calls_def)
      next
        case tok: (Inr access_token)
        with Inr ok result show ?thesis
          by (simp add: get_access_token_def get_access_token_try_def http_get_def oauth_reply_def
              oauth_headers_def outside_calls_def ret_def)
      qed
    qed
  qed
qed

lemma stk_push_try_no_token:
  assumes "\<not> truthy (fst (get_access_token cfg env))"
  shows "stk_push_try cfg env phone_number amount =
           (Inr (failure_body ''Failed to connect to M-Pesa. Please try again later.'', 500),
            snd (get_access_token cfg env) @
            [Log ERROR ''STK Push failed: Could not obtain M-Pesa access token.'' []])"
  using assms
  by (cases "get_access_token cfg env") (simp add: stk_push_try_def)

text \<open>
  Claim C8. When the request passes validation and \<^const>\<open>get_access_token\<close> yields no
  token, the reply is the fixed internal-error response: status 500 with the message
  "Failed to connect to M-Pesa. Please try again later.", in which nothing of the
  provider's reply appears. The only call the run makes outside the process is the one
  GET to the token endpoint: the clock is not read, so no credentials are generated,
  and nothing is posted to the payment endpoint.
\<close>

theorem token_unavailable_fails_fast:
  assumes "request_fields data phone_number amount"
      and "validation_passes phone_number amount"
      and "\<not> truthy (fst (get_access_token cfg env))"
  shows "fst (initiate_stk_push cfg env (Inr data)) =
           Inr (JDict [(''success'', JBool False),
                       (''message'', JStr ''Failed to connect to M-Pesa. Please try again later.'')], 500) \<and>
         outside_calls (snd (initiate_stk_push cfg env (Inr data))) =
           [HttpGet (OAUTH_URL cfg) (oauth_headers cfg)]"
proof -
  have "stk_push_handlers (stk_push_try cfg env phone_number amount) =
          (Inr (failure_body ''Failed to connect to M-Pesa. Please try again later.'', 500),
           snd (get_access_token cfg env) @
           [Log ERROR ''STK Push failed: Could not obtain M-Pesa access token.'' []])"
    by (simp add: stk_push_try_no_token [OF assms(3)] stk_push_handlers_def)
  then have "initiate_stk_push cfg env (Inr data) =
      (Inr (failure_body ''Failed to connect to M-Pesa. Please try again later.'', 500),
       Log INFO ''Received STK Push request from frontend: Phone={phone_number}, Amount={amount}''
         [phone_number, amount]
       # snd (get_access_token cfg env) @
         [Log ERROR ''STK Push failed: Could not obtain M-Pesa access token.'' []])"
    by (simp add: initiate_stk_push_valid [OF assms(1,2)])
  moreover have "outside_calls (Log INFO t vs # snd (get_access_token cfg env) @ [Log ERROR t' vs']) =
      [HttpGet (OAUTH_URL cfg) (oauth_headers cfg)]" for t vs t' vs'
    using outside_calls_get_access_token [of cfg env] by (simp add: outside_calls_def)
  ultimately show ?thesis
    by (simp add: failure_body_def)
qed

lemma example_phone_ok: "phone_format_ok (JStr ''254712345678'')"
  by (simp add: phone_format_ok_def startswith_def py_isdigit_def isdigit_char_def code_point_def)

lemma example_fields: "request_fields (payment_request phone amount) (JStr phone) amount"
  by (simp add: request_fields_def payment_request_def)

theorem token_unavailable_fails_fast_witness:
  "fst (initiate_stk_push example_config
          (stub_env (Inr (stub_response 401 ''Unauthorized''
               (Inr (JDict [(''errorCode'', JStr ''401.003.01''),
                            (''errorMessage'', JStr ''Bad credentials: the consumer secret is wrong'')]))))
             (Inl ''unused'') example_time)
          (Inr (payment_request ''254712345678'' (JInt 100)))) =
     Inr (JDict [(''success'', JBool False),
                 (''message'', JStr ''Failed to connect to M-Pesa. Please try again later.'')], 500) \<and>
   outside_calls (snd (initiate_stk_push example_config
          (stub_env (Inr (stub_response 401 ''Unauthorized''
               (Inr (JDict [(''errorCode'', JStr ''401.003.01''),
                            (''errorMessage'', JStr ''Bad credentials: the consumer secret is wrong'')]))))
             (Inl ''unused'') example_time)
          (Inr (payment_request ''254712345678'' (JInt 100))))) =
     [HttpGet (OAUTH_URL example_config) (oauth_headers example_config)]"
proof -
  let ?env = "stub_env (Inr (stub_response 401 ''Unauthorized''
               (Inr (JDict [(''errorCode'', JStr ''401.003.01''),
                            (''errorMessage'', JStr ''Bad credentials: the consumer secret is wrong'')]))))
             (Inl ''unused'') example_time"
  have valid: "validation_passes (JStr ''254712345678'') (JInt 100)"
    by (simp add: validation_passes_def example_phone_ok le_int_def)
  have "oauth_reply example_config ?env =
      Inr (stub_response 401 ''Unauthorized''
             (Inr (JDict [(''errorCode'', JStr ''401.003.01''),
                          (''errorMessage'', JStr ''Bad credentials: the consumer secret is wrong'')])))"
    by (simp add: oauth_reply_def stub_env_def)
  moreover have "error_status (stub_response 401 ''Unauthorized'' j)" for j
    by (simp add: stub_response_def error_status_def)
  ultimately have "fst (get_access_token example_config ?env) = JNull"
    by (simp add: get_access_token_status)
  then have none: "\<not> truthy (fst (get_access_token example_config ?env))"
    by simp
  show ?thesis
    by (rule token_unavailable_fails_fast [OF example_fields valid none])
qed

section \<open>Initiating a payment: the answer of the payment endpoint\<close>

lemma stk_push_try_posted:
  assumes "truthy (fst (get_access_token cfg env))"
      and "py_int (BUSINESS_SHORT_CODE cfg) = Inr short_code"
      and "py_int (str_of phone_number) = Inr phone"
  shows "stk_push_try cfg env phone_number amount =
     bind_c (Inr (),
             snd (get_access_token cfg env) @ snd (generate_mpesa_credentials cfg env) @
             [Log INFO ''Sending STK Push request to Safaricom with payload: {payload}''
                [stk_payload cfg env short_code phone amount],
              HttpPost (STKPUSH_URL cfg) (stk_payload cfg env short_code phone amount) (stk_headers cfg env)])
       (\<lambda>_. bind_c (lift (case stk_reply cfg env short_code phone amount of
                              Inl m \<Rightarrow> Inl (Exn RequestException m) | Inr r \<Rightarrow> Inr r)) (\<lambda>response.
             bind_c (lift (raise_for_status response)) (\<lambda>_.
             bind_c (lift (json_result response)) (\<lambda>stk_response.
             bind_c (emit (Log INFO ''Received STK Push response from Safaricom: {stk_response}'' [stk_response])) (\<lambda>_.
             bind_c (lift (py_get stk_response ''ResponseCode'' JNull)) (\<lambda>response_code.
               if response_code = JStr ''0''
               then bind_c (lift (py_get stk_response ''CustomerMessage''
                        (JStr ''STK Push initiated successfully! Please check your phone for the M-Pesa prompt.''))) (\<lambda>message.
                    bind_c (lift (py_get stk_response ''CheckoutRequestID'' JNull)) (\<lambda>checkout_request_id.
                    bind_c (lift (py_get stk_response ''ResponseCode'' JNull)) (\<lambda>response_code'.
                      ret (JDict [(''success'', JBool True),
                                  (''message'', message),
                                  (''CheckoutRequestID'', checkout_request_id),
                                  (''ResponseCode'', response_code')], 200))))
               else bind_c (lift (py_get stk_response ''ResponseDescription''
                        (JStr ''STK Push initiation failed due to an unknown M-Pesa error.''))) (\<lambda>error_message.
                    bind_c (emit (Log ERROR ''STK Push failed at Safaricom: {error_message} | Full Response: {stk_response}''
                        [error_message, stk_response])) (\<lambda>_.
                      ret (JDict [(''success'', JBool False),
                                  (''message'', error_message),
                                  (''MpesaResponse'', stk_response)], 400)))))))))"
proof -
  obtain tok tr0 where tok: "get_access_token cfg env = (tok, tr0)"
    by (cases "get_access_token cfg env")
  obtain ts pw tr1 where cred: "generate_mpesa_credentials cfg env = ((ts, pw), tr1)"
    by (cases "generate_mpesa_credentials cfg env") auto
  show ?thesis
    using assms
    by (cases "requests_post env (STKPUSH_URL cfg) (stk_payload cfg env short_code phone amount) (stk_headers cfg env)")
       (simp_all add: tok cred stk_push_try_def stk_payload_def stk_headers_def stk_reply_def
          http_post_def Let_def)
qed

lemma stk_push_try_interpreted:
  assumes "truthy (fst (get_access_token cfg env))"
      and "py_int (BUSINESS_SHORT_CODE cfg) = Inr short_code"
      and "py_int (str_of phone_number) = Inr phone"
      and "stk_reply cfg env short_code phone amount = Inr response"
      and "\<not> error_status response"
      and "json_result response = Inr (JDict kvs)"
  shows "fst (stk_push_try cfg env phone_number amount) =
           Inr (if map_of kvs ''ResponseCode'' = Some (JStr ''0'') then accepted_reply kvs
                else rejected_reply kvs)"
  using assms(4-6)
  by (simp add: stk_push_try_posted [OF assms(1-3)] raise_for_status_ok accepted_reply_def
      rejected_reply_def split: option.splits)

lemma stk_push_try_error_status:
  assumes "truthy (fst (get_access_token cfg env))"
      and "py_int (BUSINESS_SHORT_CODE cfg) = Inr short_code"
      and "py_int (str_of phone_number) = Inr phone"
      and "stk_reply cfg env short_code phone amount = Inr response"
      and "error_status response"
  shows "fst (stk_push_try cfg env phone_number amount) =
           Inl (Exn HTTPError (str_of_nat (status_code response) @
                  (if status_code response < 500 then '' Client Error: '' else '' Server Error: '') @
                  reason response @ '' for url: '' @ url response))"
  using assms(4-5)
  by (simp add: stk_push_try_posted [OF assms(1-3)] raise_for_status_error)

lemma fst_stk_push_handlers_Inr [simp]:
  "fst m = Inr r \<Longrightarrow> fst (stk_push_handlers m) = Inr r"
  by (cases m) (simp add: stk_push_handlers_def)

lemma initiate_stk_push_interpreted:
  assumes "request_fields data phone_number amount"
      and "validation_passes phone_number amount"
      and "truthy (fst (get_access_token cfg env))"
      and "py_int (BUSINESS_SHORT_CODE cfg) = Inr short_code"
      and "py_int (str_of phone_number) = Inr phone"
      and "stk_reply cfg env short_code phone amount = Inr response"
      and "\<not> error_status response"
      and "json_result response = Inr (JDict kvs)"
  shows "fst (initiate_stk_push cfg env (Inr data)) =
           Inr (if map_of kvs ''ResponseCode'' = Some (JStr ''0'') then accepted_reply kvs
                else rejected_reply kvs)"
  by (simp add: initiate_stk_push_valid [OF assms(1,2)] stk_push_try_interpreted [OF assms(3-8)])

text \<open>
  Claim C3, as amended. Let the request pass validation, the token be there, and the
  payment endpoint answer with a status outside 400 to 599 and a JSON object. If the object's
  ResponseCode is the string "0", the reply is the success response with status 200,
  and its CheckoutRequestID is the provider's. With any other ResponseCode, or none,
  the reply is the failure response with status 400 whose message is the provider's
  ResponseDescription.
\<close>

theorem payment_reply_interpreted:
  assumes "request_fields data phone_number amount"
      and "validation_passes phone_number amount"
      and "truthy (fst (get_access_token cfg env))"
      and "py_int (BUSINESS_SHORT_CODE cfg) = Inr short_code"
      and "py_int (str_of phone_number) = Inr phone"
      and "stk_reply cfg env short_code phone amount = Inr response"
      and "\<not> error_status response"
      and "json_result response = Inr (JDict kvs)"
  shows "(map_of kvs ''ResponseCode'' = Some (JStr ''0'') \<and> map_of kvs ''CheckoutRequestID'' = Some cid \<longrightarrow>
            fst (initiate_stk_push cfg env (Inr data)) =
              Inr (JDict [(''success'', JBool True),
                          (''message'', (case map_of kvs ''CustomerMessage'' of
                               Some v \<Rightarrow> v
                             | None \<Rightarrow> JStr ''STK Push initiated successfully! Please check your phone for the M-Pesa prompt.'')),
                          (''CheckoutRequestID'', cid), (''ResponseCode'', JStr ''0'')], 200)) \<and>
         (map_of kvs ''ResponseCode'' \<noteq> Some (JStr ''0'') \<and> map_of kvs ''ResponseDescription'' = Some description \<longrightarrow>
            fst (initiate_stk_push cfg env (Inr data)) =
              Inr (JDict [(''success'', JBool False), (''message'', description),
                          (''MpesaResponse'', JDict kvs)], 400))"
  by (simp add: initiate_stk_push_interpreted [OF assms] accepted_reply_def rejected_reply_def)

lemma example_short_code: "py_int (BUSINESS_SHORT_CODE example_config) = Inr 174379"
  by (simp add: example_config_def py_int_def strip_int_def int_space_def is_decimal_def code_point_def)

lemma example_phone_int: "py_int (str_of (JStr ''254712345678'')) = Inr 254712345678"
  by (simp add: py_int_def strip_int_def int_space_def is_decimal_def code_point_def)

lemma example_token:
  "fst (get_access_token cfg (stub_env example_token_reply p t)) = JStr ''c9SQxWWhmdVRlyh0zh8gZDTkubVF''"
  by (simp add: get_access_token_def get_access_token_try_def http_get_def raise_for_status_def
      stub_env_def stub_response_def token_body_def example_token_reply_def ret_def)

lemma example_valid: "validation_passes (JStr ''254712345678'') (JInt 100)"
  by (simp add: validation_passes_def example_phone_ok le_int_def)

theorem payment_reply_interpreted_witness:
  "fst (initiate_stk_push example_config
          (stub_env example_token_reply (Inr (stub_response 200 ''OK'' (Inr (JDict example_accepted)))) example_time)
          (Inr (payment_request ''254712345678'' (JInt 100)))) =
     Inr (JDict [(''success'', JBool True), (''message'', JStr ''Success. Request accepted for processing''),
                 (''CheckoutRequestID'', JStr ''abc''), (''ResponseCode'', JStr ''0'')], 200) \<and>
   fst (initiate_stk_push example_config
          (stub_env example_token_reply (Inr (stub_response 200 ''OK'' (Inr (JDict example_rejected)))) example_time)
          (Inr (payment_request ''254712345678'' (JInt 100)))) =
     Inr (JDict [(''success'', JBool False), (''message'', JStr ''insufficient permissions''),
                 (''MpesaResponse'', JDict example_rejected)], 400)"
proof -
  let ?ok = "stub_response 200 ''OK'' (Inr (JDict example_accepted))"
  let ?no = "stub_response 200 ''OK'' (Inr (JDict example_rejected))"
  have tok: "truthy (fst (get_access_token example_config (stub_env example_token_reply p example_time)))" for p
    by (simp add: example_token)
  have reply: "stk_reply example_config (stub_env example_token_reply (Inr r) example_time) 174379 254712345678 (JInt 100) = Inr r" for r
    by (simp add: stk_reply_def stub_env_def)
  have status: "\<not> error_status (stub_response 200 ''OK'' j)" for j
    by (simp add: error_status_def stub_response_def)
  have body: "json_result (stub_response 200 ''OK'' j) = j" for j
    by (simp add: stub_response_def)
  from payment_reply_interpreted [where response = ?ok and kvs = example_accepted and cid = "JStr ''abc''",
      OF example_fields example_valid tok example_short_code example_phone_int reply status body]
  have 1: "fst (initiate_stk_push example_config (stub_env example_token_reply (Inr ?ok) example_time)
            (Inr (payment_request ''254712345678'' (JInt 100)))) =
     Inr (JDict [(''success'', JBool True), (''message'', JStr ''Success. Request accepted for processing''),
                 (''CheckoutRequestID'', JStr ''abc''), (''ResponseCode'', JStr ''0'')], 200)"
    by (simp add: example_accepted_def)
  from payment_reply_interpreted [where response = ?no and kvs = example_rejected
        and description = "JStr ''insufficient permissions''",
      OF example_fields example_valid tok example_short_code example_phone_int reply status body]
  have 2: "fst (initiate_stk_push example_config (stub_env example_token_reply (Inr ?no) example_time)
            (Inr (payment_request ''254712345678'' (JInt 100)))) =
     Inr (JDict [(''success'', JBool False), (''message'', JStr ''insufficient permissions''),
                 (''MpesaResponse'', JDict example_rejected)], 400)"
    by (simp add: example_rejected_def)
  from 1 2 show ?thesis by simp
qed

section \<open>Initiating a payment: an error status from the payment endpoint\<close>

lemma stk_push_handlers_HTTPError:
  "fst m = Inl (Exn HTTPError t) \<Longrightarrow>
   fst (stk_push_handlers m) = Inr (failure_body (''Network or API communication error: '' @ t), 500)"
  by (cases m) (simp add: stk_push_handlers_def)

text \<open>
  Claim C9, as amended. When the payment endpoint answers with a status from 400 to
  599, the reply is the internal-error response of the transport handler, status 500,
  whose message is the text of the \<^verbatim>\<open>HTTPError\<close>. The body of the provider's answer plays
  no part: \<^verbatim>\<open>raise_for_status\<close> raises before the body is decoded, so no ResponseCode
  or ResponseDescription is read.
\<close>

theorem payment_error_status:
  assumes "request_fields data phone_number amount"
      and "validation_passes phone_number amount"
      and "truthy (fst (get_access_token cfg env))"
      and "py_int (BUSINESS_SHORT_CODE cfg) = Inr short_code"
      and "py_int (str_of phone_number) = Inr phone"
      and "stk_reply cfg env short_code phone amount = Inr response"
      and "error_status response"
  shows "fst (initiate_stk_push cfg env (Inr data)) =
           Inr (JDict [(''success'', JBool False),
                       (''message'',
                        JStr (''Network or API communication error: '' @
                              str_of_nat (status_code response) @
                              (if status_code response < 500 then '' Client Error: '' else '' Server Error: '') @
                              reason response @ '' for url: '' @ url response))], 500)"
  by (simp add: initiate_stk_push_valid [OF assms(1,2)]
      stk_push_handlers_HTTPError [OF stk_push_try_error_status [OF assms(3-7)]] failure_body_def)

text \<open>
  The claim as first stated fails at status 300: it is not a 2xx status, no exception
  is raised for it, and the body's ResponseCode decides the reply, here the provider
  rejection with status 400.
\<close>

theorem payment_error_status_counterexample:
  "fst (initiate_stk_push example_config
          (stub_env example_token_reply
             (Inr (stub_response 300 ''Multiple Choices'' (Inr (JDict example_rejected)))) example_time)
          (Inr (payment_request ''254712345678'' (JInt 100)))) =
     Inr (JDict [(''success'', JBool False), (''message'', JStr ''insufficient permissions''),
                 (''MpesaResponse'', JDict example_rejected)], 400)"
proof -
  let ?r = "stub_response 300 ''Multiple Choices'' (Inr (JDict example_rejected))"
  have tok: "truthy (fst (get_access_token example_config (stub_env example_token_reply (Inr ?r) example_time)))"
    by (simp add: example_token)
  have reply: "stk_reply example_config (stub_env example_token_reply (Inr ?r) example_time)
      174379 254712345678 (JInt 100) = Inr ?r"
    by (simp add: stk_reply_def stub_env_def)
  have status: "\<not> error_status ?r"
    by (simp add: error_status_def stub_response_def)
  have body: "json_result ?r = Inr (JDict example_rejected)"
    by (simp add: stub_response_def)
  have "fst (initiate_stk_push example_config (stub_env example_token_reply (Inr ?r) example_time)
          (Inr (payment_request ''254712345678'' (JInt 100)))) =
        Inr (if map_of example_rejected ''ResponseCode'' = Some (JStr ''0'')
             then accepted_reply example_rejected else rejected_reply example_rejected)"
    by (rule initiate_stk_push_interpreted [OF example_fields example_valid tok example_short_code
          example_phone_int reply status body])
  also have "\<dots> = Inr (JDict [(''success'', JBool False), (''message'', JStr ''insufficient permissions''),
                 (''MpesaResponse'', JDict example_rejected)], 400)"
    by (simp add: rejected_reply_def example_rejected_def)
  finally show ?thesis .
qed

theorem payment_error_status_witness:
  "fst (initiate_stk_push example_config
          (stub_env example_token_reply
             (Inr (stub_response 500 ''Internal Server Error'' (Inr (JDict example_accepted)))) example_time)
          (Inr (payment_request ''254712345678'' (JInt 100)))) =
     Inr (JDict [(''success'', JBool False),
                 (''message'',
                  JStr ''Network or API communication error: 500 Server Error: Internal Server Error for url: https://provider.example/'')],
          500) \<and>
   fst (initiate_stk_push example_config
          (stub_env example_token_reply
             (Inr (stub_response 403 ''Forbidden'' (Inr (JDict example_rejected)))) example_time)
          (Inr (payment_request ''254712345678'' (JInt 100)))) =
     Inr (JDict [(''success'', JBool False),
                 (''message'',
                  JStr ''Network or API communication error: 403 Client Error: Forbidden for url: https://provider.example/'')],
          500)"
proof -
  let ?a = "stub_response 500 ''Internal Server Error'' (Inr (JDict example_accepted))"
  let ?b = "stub_response 403 ''Forbidden'' (Inr (JDict example_rejected))"
  have tok: "truthy (fst (get_access_token example_config (stub_env example_token_reply p example_time)))" for p
    by (simp add: example_token)
  have reply: "stk_reply example_config (stub_env example_token_reply (Inr r) example_time)
      174379 254712345678 (JInt 100) = Inr r" for r
    by (simp add: stk_reply_def stub_env_def)
  have a: "error_status ?a" and b: "error_status ?b"
    by (simp_all add: error_status_def stub_response_def)
  have n500: "str_of_nat 500 = ''500''"
    by code_simp
  have n403: "str_of_nat 403 = ''403''"
    by code_simp
  from payment_error_status [OF example_fields example_valid tok example_short_code example_phone_int reply a]
  have 1: "fst (initiate_stk_push example_config (stub_env example_token_reply (Inr ?a) example_time)
          (Inr (payment_request ''254712345678'' (JInt 100)))) =
     Inr (JDict [(''success'', JBool False),
                 (''message'',
                  JStr ''Network or API communication error: 500 Server Error: Internal Server Error for url: https://provider.example/'')],
          500)"
    by (simp add: stub_response_def n500)
  from payment_error_status [OF example_fields example_valid tok example_short_code example_phone_int reply b]
  have 2: "fst (initiate_stk_push example_config (stub_env example_token_reply (Inr ?b) example_time)
          (Inr (payment_request ''254712345678'' (JInt 100)))) =
     Inr (JDict [(''success'', JBool False),
                 (''message'',
                  JStr ''Network or API communication error: 403 Client Error: Forbidden for url: https://provider.example/'')],
          500)"
    by (simp add: stub_response_def n403)
  from 1 2 show ?thesis by simp
qed

section \<open>Initiating a payment: which amounts pass\<close>

lemma phone_format_ok_truthy: "phone_format_ok phone_number \<Longrightarrow> truthy phone_number"
  by (cases phone_number) (auto simp: phone_format_ok_def)

lemma token_get_in_trace:
  "HttpGet (OAUTH_URL cfg) (oauth_headers cfg) \<in> set (snd (get_access_token cfg env))"
proof -
  have "HttpGet (OAUTH_URL cfg) (oauth_headers cfg) \<in> set (outside_calls (snd (get_access_token cfg env)))"
    by (simp add: outside_calls_get_access_token)
  then show ?thesis
    by (simp add: outside_calls_def)
qed

lemma stk_push_try_trace_prefix:
  "\<exists>rest. snd (stk_push_try cfg env phone_number amount) = snd (get_access_token cfg env) @ rest"
  by (cases "get_access_token cfg env") (simp add: stk_push_try_def)

lemma stk_push_handlers_trace: "\<exists>rest. snd (stk_push_handlers m) = snd m @ rest"
  by (cases m; cases "fst m") (auto simp: stk_push_handlers_def)

lemma initiate_fetches_token:
  assumes "request_fields data phone_number amount" and "validation_passes phone_number amount"
  shows "HttpGet (OAUTH_URL cfg) (oauth_headers cfg) \<in> set (snd (initiate_stk_push cfg env (Inr data)))"
proof -
  obtain r1 where "snd (stk_push_try cfg env phone_number amount) = snd (get_access_token cfg env) @ r1"
    using stk_push_try_trace_prefix by blast
  moreover obtain r2 where "snd (stk_push_handlers (stk_push_try cfg env phone_number amount)) =
      snd (stk_push_try cfg env phone_number amount) @ r2"
    using stk_push_handlers_trace by blast
  ultimately show ?thesis
    using token_get_in_trace [of cfg env]
    by (simp add: initiate_stk_push_valid [OF assms])
qed

lemma initiate_posts:
  assumes "request_fields data phone_number amount"
      and "validation_passes phone_number amount"
      and "truthy (fst (get_access_token cfg env))"
      and "py_int (BUSINESS_SHORT_CODE cfg) = Inr short_code"
      and "py_int (str_of phone_number) = Inr phone"
  shows "HttpPost (STKPUSH_URL cfg) (stk_payload cfg env short_code phone amount) (stk_headers cfg env)
           \<in> set (snd (initiate_stk_push cfg env (Inr data)))"
proof -
  obtain r2 where "snd (stk_push_handlers (stk_push_try cfg env phone_number amount)) =
      snd (stk_push_try cfg env phone_number amount) @ r2"
    using stk_push_handlers_trace by blast
  then show ?thesis
    by (simp add: initiate_stk_push_valid [OF assms(1,2)] stk_push_try_posted [OF assms(3-5)])
qed

lemma stk_push_try_reply_shape:
  "fst (stk_push_try cfg env phone_number amount) = Inr (b, st) \<Longrightarrow>
   st = 500 \<or> st = 200 \<or> (\<exists>m r. b = JDict [(''success'', JBool False), (''message'', m), (''MpesaResponse'', r)])"
proof -
  obtain tok tr0 where tok: "get_access_token cfg env = (tok, tr0)"
    by (cases "get_access_token cfg env")
  obtain ts pw tr1 where cred: "generate_mpesa_credentials cfg env = ((ts, pw), tr1)"
    by (cases "generate_mpesa_credentials cfg env") auto
  assume "fst (stk_push_try cfg env phone_number amount) = Inr (b, st)"
  then show ?thesis
    by (auto simp: stk_push_try_def tok cred Let_def fst_bind_c_Inr split: if_splits)
qed

lemma initiate_try_not_validation_failure:
  "fst (stk_push_handlers (stk_push_try cfg env phone_number amount)) \<noteq> Inr (failure_body m, 400)"
proof (cases "fst (stk_push_try cfg env phone_number amount)")
  case (Inl e)
  then show ?thesis
    by (cases "stk_push_try cfg env phone_number amount") (auto simp: stk_push_handlers_def)
next
  case (Inr r)
  obtain b st where r: "r = (b, st)"
    by (cases r)
  from stk_push_try_reply_shape [of cfg env phone_number amount b st] Inr r show ?thesis
    by (auto simp: failure_body_def)
qed

lemma presence_check:
  assumes "request_fields data phone_number amount" and "phone_format_ok phone_number"
  shows "fst (initiate_stk_push cfg env (Inr data)) =
           Inr (failure_body ''Phone number and amount are required.'', 400)
         \<longleftrightarrow> \<not> truthy amount"
proof (cases "truthy amount")
  case False
  with assms show ?thesis
    by (simp add: initiate_stk_push_def request_fields_def)
next
  case True
  note p = phone_format_ok_truthy [OF assms(2)]
  show ?thesis
  proof (cases "isinstance_int amount \<and> \<not> le_int amount 0")
    case True
    with \<open>truthy amount\<close> p assms(2) have "validation_passes phone_number amount"
      by (simp add: validation_passes_def)
    with \<open>truthy amount\<close> show ?thesis
      by (simp add: initiate_stk_push_valid [OF assms(1)] initiate_try_not_validation_failure)
  next
    case False
    with \<open>truthy amount\<close> p assms show ?thesis
      by (auto simp: initiate_stk_push_def request_fields_def failure_body_def)
  qed
qed

text \<open>
  Claim C10. With a phone number of the accepted format and the amount \<^verbatim>\<open>True\<close>, all
  three checks pass, since \<^verbatim>\<open>True\<close> is an instance of \<^verbatim>\<open>int\<close> and is greater than 0: the
  run goes on to the token endpoint, and when the token is there and the short code and
  the phone number read as integers, the payload posted to the payment endpoint has
  \<^verbatim>\<open>True\<close> as its Amount. The presence check alone, whose reply is "Phone number and
  amount are required.", rejects an amount exactly when the amount is falsy.
\<close>

theorem boolean_amount_accepted:
  assumes "request_fields data phone_number (JBool True)"
      and "phone_format_ok phone_number"
  shows "validation_passes phone_number (JBool True) \<and>
         HttpGet (OAUTH_URL cfg) (oauth_headers cfg) \<in> set (snd (initiate_stk_push cfg env (Inr data))) \<and>
         (truthy (fst (get_access_token cfg env)) \<and> py_int (BUSINESS_SHORT_CODE cfg) = Inr short_code \<and>
          py_int (str_of phone_number) = Inr phone \<longrightarrow>
            HttpPost (STKPUSH_URL cfg) (stk_payload cfg env short_code phone (JBool True)) (stk_headers cfg env)
              \<in> set (snd (initiate_stk_push cfg env (Inr data))) \<and>
            py_get (stk_payload cfg env short_code phone (JBool True)) ''Amount'' JNull = Inr (JBool True)) \<and>
         (request_fields data' phone_number amount' \<longrightarrow>
            (fst (initiate_stk_push cfg env (Inr data')) =
               Inr (JDict [(''success'', JBool False),
                           (''message'', JStr ''Phone number and amount are required.'')], 400)
             \<longleftrightarrow> \<not> truthy amount'))"
proof -
  have valid: "validation_passes phone_number (JBool True)"
    using assms(2) by (simp add: validation_passes_def phone_format_ok_truthy le_int_def)
  have "py_get (stk_payload cfg env short_code phone (JBool True)) ''Amount'' JNull = Inr (JBool True)"
    by (simp add: stk_payload_def)
  moreover have "request_fields data' phone_number amount' \<Longrightarrow>
      (fst (initiate_stk_push cfg env (Inr data')) =
         Inr (JDict [(''success'', JBool False),
                     (''message'', JStr ''Phone number and amount are required.'')], 400)
       \<longleftrightarrow> \<not> truthy amount')"
    using presence_check [of data' phone_number amount' cfg env] assms(2)
    by (simp add: failure_body_def)
  ultimately show ?thesis
    using valid initiate_fetches_token [OF assms(1) valid] initiate_posts [OF assms(1) valid]
    by blast
qed

theorem boolean_amount_accepted_witness:
  "validation_passes (JStr ''254712345678'') (JBool True) \<and>
   HttpPost (STKPUSH_URL example_config)
      (stk_payload example_config
         (stub_env example_token_reply (Inr (stub_response 200 ''OK'' (Inr (JDict example_accepted)))) example_time)
         174379 254712345678 (JBool True))
      (stk_headers example_config
         (stub_env example_token_reply (Inr (stub_response 200 ''OK'' (Inr (JDict example_accepted)))) example_time))
     \<in> set (snd (initiate_stk_push example_config
         (stub_env example_token_reply (Inr (stub_response 200 ''OK'' (Inr (JDict example_accepted)))) example_time)
         (Inr (payment_request ''254712345678'' (JBool True))))) \<and>
   fst (initiate_stk_push example_config
         (stub_env example_token_reply (Inr (stub_response 200 ''OK'' (Inr (JDict example_accepted)))) example_time)
         (Inr (payment_request ''254712345678'' (JInt 0)))) =
     Inr (JDict [(''success'', JBool False),
                 (''message'', JStr ''Phone number and amount are required.'')], 400) \<and>
   fst (initiate_stk_push example_config
         (stub_env example_token_reply (Inr (stub_response 200 ''OK'' (Inr (JDict example_accepted)))) example_time)
         (Inr (payment_request ''254712345678'' (JInt (- 5))))) \<noteq>
     Inr (JDict [(''success'', JBool False),
                 (''message'', JStr ''Phone number and amount are required.'')], 400)"
proof -
  let ?env = "stub_env example_token_reply (Inr (stub_response 200 ''OK'' (Inr (JDict example_accepted)))) example_time"
  have tok: "truthy (fst (get_access_token example_config ?env))"
    by (simp add: example_token)
  note t = boolean_amount_accepted [OF example_fields example_phone_ok, of example_config ?env]
  from t [of 174379 254712345678] tok example_short_code example_phone_int
  have 1: "validation_passes (JStr ''254712345678'') (JBool True)"
    and 2: "HttpPost (STKPUSH_URL example_config)
        (stk_payload example_config ?env 174379 254712345678 (JBool True)) (stk_headers example_config ?env)
      \<in> set (snd (initiate_stk_push example_config ?env (Inr (payment_request ''254712345678'' (JBool True)))))"
    by blast+
  from t [where data' = "payment_request ''254712345678'' (JInt 0)" and amount' = "JInt 0"] example_fields
  have 3: "fst (initiate_stk_push example_config ?env (Inr (payment_request ''254712345678'' (JInt 0)))) =
     Inr (JDict [(''success'', JBool False),
                 (''message'', JStr ''Phone number and amount are required.'')], 400)"
    by simp
  from t [where data' = "payment_request ''254712345678'' (JInt (- 5))" and amount' = "JInt (- 5)"] example_fields
  have 4: "fst (initiate_stk_push example_config ?env (Inr (payment_request ''254712345678'' (JInt (- 5))))) \<noteq>
     Inr (JDict [(''success'', JBool False),
                 (''message'', JStr ''Phone number and amount are required.'')], 400)"
    by simp
  from 1 2 3 4 show ?thesis by blast
qed

section \<open>Initiating a payment: validation and the amount True\<close>

text \<open>
  Claim C1. The claim asks that every amount that is not an integer be answered with a
  validation failure, status 400, before any call to the network. At the request whose
  phone number is 254712345678 and whose amount is the JSON value \<^verbatim>\<open>true\<close>, the code does
  otherwise, whatever the configuration and the world: the reply is not a validation
  failure, and the token endpoint is called.
\<close>

theorem validation_admits_true_amount:
  "HttpGet (OAUTH_URL cfg) (oauth_headers cfg)
     \<in> set (snd (initiate_stk_push cfg env (Inr (payment_request ''254712345678'' (JBool True))))) \<and>
   fst (initiate_stk_push cfg env (Inr (payment_request ''254712345678'' (JBool True))))
     \<noteq> Inr (failure_body m, 400)"
proof -
  have valid: "validation_passes (JStr ''254712345678'') (JBool True)"
    by (simp add: validation_passes_def example_phone_ok le_int_def)
  show ?thesis
    using initiate_fetches_token [OF example_fields valid, of cfg env]
    by (simp add: initiate_stk_push_valid [OF example_fields valid] initiate_try_not_validation_failure)
qed

theorem validation_admits_true_amount_witness:
  "HttpGet (OAUTH_URL example_config) (oauth_headers example_config)
     \<in> set (snd (initiate_stk_push example_config
          (stub_env example_token_reply (Inr (stub_response 200 ''OK'' (Inr (JDict example_accepted)))) example_time)
          (Inr (payment_request ''254712345678'' (JBool True))))) \<and>
   fst (initiate_stk_push example_config
          (stub_env example_token_reply (Inr (stub_response 200 ''OK'' (Inr (JDict example_accepted)))) example_time)
          (Inr (payment_request ''254712345678'' (JBool True))))
     \<noteq> Inr (failure_body ''Amount must be a positive integer.'', 400)"
  by (rule validation_admits_true_amount)

text \<open>
  In the same world the run with the amount \<^verbatim>\<open>True\<close> ends in the success response: the
  payment endpoint has been asked to collect the amount \<^verbatim>\<open>true\<close>.
\<close>

lemma true_amount_accepted_by_provider:
  "fst (initiate_stk_push example_config
          (stub_env example_token_reply (Inr (stub_response 200 ''OK'' (Inr (JDict example_accepted)))) example_time)
          (Inr (payment_request ''254712345678'' (JBool True)))) =
     Inr (JDict [(''success'', JBool True), (''message'', JStr ''Success. Request accepted for processing''),
                 (''CheckoutRequestID'', JStr ''abc''), (''ResponseCode'', JStr ''0'')], 200)"
proof -
  let ?r = "stub_response 200 ''OK'' (Inr (JDict example_accepted))"
  let ?env = "stub_env example_token_reply (Inr ?r) example_time"
  have valid: "validation_passes (JStr ''254712345678'') (JBool True)"
    by (simp add: validation_passes_def example_phone_ok le_int_def)
  have tok: "truthy (fst (get_access_token example_config ?env))"
    by (simp add: example_token)
  have reply: "stk_reply example_config ?env 174379 254712345678 (JBool True) = Inr ?r"
    by (simp add: stk_reply_def stub_env_def)
  have status: "\<not> error_status ?r"
    by (simp add: error_status_def stub_response_def)
  have body: "json_result ?r = Inr (JDict example_accepted)"
    by (simp add: stub_response_def)
  have "fst (initiate_stk_push example_config ?env (Inr (payment_request ''254712345678'' (JBool True)))) =
        Inr (if map_of example_accepted ''ResponseCode'' = Some (JStr ''0'')
             then accepted_reply example_accepted else rejected_reply example_accepted)"
    by (rule initiate_stk_push_interpreted [OF example_fields valid tok example_short_code
          example_phone_int reply status body])
  also have "\<dots> = Inr (JDict [(''success'', JBool True), (''message'', JStr ''Success. Request accepted for processing''),
                 (''CheckoutRequestID'', JStr ''abc''), (''ResponseCode'', JStr ''0'')], 200)"
    by (simp add: accepted_reply_def example_accepted_def)
  finally show ?thesis .
qed

text \<open>
  \<^verbatim>\<open>str.isdigit\<close> holds of digits that \<^verbatim>\<open>int\<close> does not read. The twelve characters 2547
  followed by eight superscript twos pass the format check of line 122; \<^verbatim>\<open>int\<close> raises
  on them at line 148, after the token has been fetched.
\<close>

lemma superscript_digits_pass_format_check:
  "phone_format_ok (JStr (''2547'' @ replicate 8 (CHR 0xB2))) \<and>
   (\<exists>m. py_int (''2547'' @ replicate 8 (CHR 0xB2)) = Inl (Exn ValueError m))"
proof
  have "replicate 8 (CHR 0xB2) = [CHR 0xB2, CHR 0xB2, CHR 0xB2, CHR 0xB2, CHR 0xB2, CHR 0xB2, CHR 0xB2, CHR 0xB2]"
    by (simp add: numeral_eq_Suc)
  then show "phone_format_ok (JStr (''2547'' @ replicate 8 (CHR 0xB2)))"
    by (simp add: phone_format_ok_def startswith_def py_isdigit_def isdigit_char_def code_point_def)
  show "\<exists>m. py_int (''2547'' @ replicate 8 (CHR 0xB2)) = Inl (Exn ValueError m)"
    by (simp add: py_int_def strip_int_def int_space_def is_decimal_def code_point_def numeral_eq_Suc)
qed

section \<open>Base64 is injective\<close>

lemma code_point_less: "code_point c < 256"
  by (simp add: code_point_def)

lemma code_point_inject: "code_point c = code_point d \<longleftrightarrow> c = d"
  by (simp add: code_point_def)

lemma length_b64_alphabet: "length b64_alphabet = 64"
  by (simp add: b64_alphabet_def)

lemma distinct_b64_alphabet: "distinct b64_alphabet"
  by (simp add: b64_alphabet_def)

lemma pad_not_in_b64_alphabet: "CHR ''='' \<notin> set b64_alphabet"
  by (simp add: b64_alphabet_def)

lemma b64_char_inject: "i < 64 \<Longrightarrow> j < 64 \<Longrightarrow> b64_char i = b64_char j \<longleftrightarrow> i = j"
  by (simp add: b64_char_def nth_eq_iff_index_eq distinct_b64_alphabet length_b64_alphabet)

lemma b64_char_in_alphabet: "i < 64 \<Longrightarrow> b64_char i \<in> set b64_alphabet"
  by (simp add: b64_char_def length_b64_alphabet)

lemma b64_char_not_pad: "i < 64 \<Longrightarrow> b64_char i \<noteq> CHR ''=''"
  using b64_char_in_alphabet pad_not_in_b64_alphabet by metis

lemma split_digits:
  fixes x y x' y' n :: nat
  assumes "y < n" and "y' < n" and "x * n + y = x' * n + y'"
  shows "x = x' \<and> y = y'"
proof -
  have "(x * n + y) div n = x" and "(x * n + y) mod n = y"
    using assms(1) by simp_all
  moreover have "(x' * n + y') div n = x'" and "(x' * n + y') mod n = y'"
    using assms(2) by simp_all
  ultimately show ?thesis
    using assms(3) by simp
qed

lemma div_mod_eqI:
  fixes a a' n :: nat
  assumes "a div n = a' div n" and "a mod n = a' mod n"
  shows "a = a'"
  by (metis assms div_mult_mod_eq)

lemma sextet_bounds:
  fixes a b :: nat
  assumes "a < 256" and "b < 256"
  shows "a div 4 < 64" and "a mod 4 * 16 < 64" and "a mod 4 * 16 + b div 16 < 64"
    and "a mod 16 * 4 < 64" and "a mod 16 * 4 + b div 64 < 64" and "a mod 64 < 64"
proof -
  define p q r s where "p = a mod 4" and "q = a mod 16" and "r = b div 16" and "s = b div 64"
  have "p < 4" and "q < 16"
    by (simp_all add: p_def q_def)
  moreover have "r < 16" and "s < 4"
    using assms(2) by (simp_all add: r_def s_def less_mult_imp_div_less)
  ultimately have "p * 16 < 64" and "p * 16 + r < 64" and "q * 4 < 64" and "q * 4 + s < 64"
    by simp_all
  then show "a mod 4 * 16 < 64" and "a mod 4 * 16 + b div 16 < 64"
    and "a mod 16 * 4 < 64" and "a mod 16 * 4 + b div 64 < 64"
    by (simp_all add: p_def q_def r_def s_def)
  show "a div 4 < 64"
    using assms(1) by (simp add: less_mult_imp_div_less)
  show "a mod 64 < 64"
    by simp
qed

lemma b64_first_byte:
  assumes "b64_char (code_point a div 4) = b64_char (code_point a' div 4)"
      and "code_point a mod 4 = code_point a' mod 4"
  shows "a = a'"
proof -
  have "code_point a div 4 = code_point a' div 4"
    using assms(1) sextet_bounds(1) [OF code_point_less code_point_less]
    by (simp add: b64_char_inject)
  then have "code_point a = code_point a'"
    using assms(2) by (rule div_mod_eqI)
  then show ?thesis
    by (simp add: code_point_inject)
qed

lemma b64_second_sextet:
  assumes "b64_char (code_point a mod 4 * 16 + code_point b div 16) =
           b64_char (code_point a' mod 4 * 16 + code_point b' div 16)"
  shows "code_point a mod 4 = code_point a' mod 4 \<and> code_point b div 16 = code_point b' div 16"
proof -
  have "code_point a mod 4 * 16 + code_point b div 16 = code_point a' mod 4 * 16 + code_point b' div 16"
    using assms sextet_bounds(3) [OF code_point_less code_point_less]
    by (simp add: b64_char_inject)
  moreover have "code_point b div 16 < 16" and "code_point b' div 16 < 16"
    using code_point_less [of b] code_point_less [of b'] by (simp_all add: less_mult_imp_div_less)
  ultimately show ?thesis
    by (rule split_digits [rotated 2])
qed

lemma b64_third_sextet:
  assumes "b64_char (code_point b mod 16 * 4 + code_point c div 64) =
           b64_char (code_point b' mod 16 * 4 + code_point c' div 64)"
  shows "code_point b mod 16 = code_point b' mod 16 \<and> code_point c div 64 = code_point c' div 64"
proof -
  have "code_point b mod 16 * 4 + code_point c div 64 = code_point b' mod 16 * 4 + code_point c' div 64"
    using assms sextet_bounds(5) [OF code_point_less code_point_less]
    by (simp add: b64_char_inject)
  moreover have "code_point c div 64 < 4" and "code_point c' div 64 < 4"
    using code_point_less [of c] code_point_less [of c'] by (simp_all add: less_mult_imp_div_less)
  ultimately show ?thesis
    by (rule split_digits [rotated 2])
qed

lemma b64_second_sextet_alone:
  assumes "b64_char (code_point a mod 4 * 16) = b64_char (code_point a' mod 4 * 16)"
  shows "code_point a mod 4 = code_point a' mod 4"
  using assms sextet_bounds(2) [OF code_point_less code_point_less]
  by (simp add: b64_char_inject)

lemma b64_third_sextet_alone:
  assumes "b64_char (code_point b mod 16 * 4) = b64_char (code_point b' mod 16 * 4)"
  shows "code_point b mod 16 = code_point b' mod 16"
  using assms sextet_bounds(4) [OF code_point_less code_point_less]
  by (simp add: b64_char_inject)

lemma b64_fourth_sextet:
  assumes "b64_char (code_point c mod 64) = b64_char (code_point c' mod 64)"
  shows "code_point c mod 64 = code_point c' mod 64"
  using assms by (simp add: b64_char_inject)

lemma byte_eqI:
  assumes "code_point b div n = code_point b' div n" and "code_point b mod n = code_point b' mod n"
  shows "b = b'"
  using div_mod_eqI [OF assms] by (simp add: code_point_inject)

lemma b64_one:
  assumes "b64encode [a] = b64encode [a']"
  shows "a = a'"
proof -
  from assms have 1: "b64_char (code_point a div 4) = b64_char (code_point a' div 4)"
    and 2: "b64_char (code_point a mod 4 * 16) = b64_char (code_point a' mod 4 * 16)"
    by simp_all
  from 1 b64_second_sextet_alone [OF 2] show ?thesis
    by (rule b64_first_byte)
qed

lemma b64_two:
  assumes "b64encode [a, b] = b64encode [a', b']"
  shows "a = a' \<and> b = b'"
proof -
  from assms have 1: "b64_char (code_point a div 4) = b64_char (code_point a' div 4)"
    and 2: "b64_char (code_point a mod 4 * 16 + code_point b div 16) =
           b64_char (code_point a' mod 4 * 16 + code_point b' div 16)"
    and 3: "b64_char (code_point b mod 16 * 4) = b64_char (code_point b' mod 16 * 4)"
    by simp_all
  note s2 = b64_second_sextet [OF 2]
  have "a = a'"
    using 1 s2 [THEN conjunct1] by (rule b64_first_byte)
  moreover have "b = b'"
    using s2 [THEN conjunct2] b64_third_sextet_alone [OF 3] by (rule byte_eqI)
  ultimately show ?thesis ..
qed

lemma b64_three:
  assumes "b64encode (a # b # c # xs) = b64encode (a' # b' # c' # ys)"
  shows "a = a' \<and> b = b' \<and> c = c' \<and> b64encode xs = b64encode ys"
proof -
  from assms have 1: "b64_char (code_point a div 4) = b64_char (code_point a' div 4)"
    and 2: "b64_char (code_point a mod 4 * 16 + code_point b div 16) =
           b64_char (code_point a' mod 4 * 16 + code_point b' div 16)"
    and 3: "b64_char (code_point b mod 16 * 4 + code_point c div 64) =
           b64_char (code_point b' mod 16 * 4 + code_point c' div 64)"
    and 4: "b64_char (code_point c mod 64) = b64_char (code_point c' mod 64)"
    and rest: "b64encode xs = b64encode ys"
    by simp_all
  note s2 = b64_second_sextet [OF 2] and s3 = b64_third_sextet [OF 3]
  have "a = a'"
    using 1 s2 [THEN conjunct1] by (rule b64_first_byte)
  moreover have "b = b'"
    using s2 [THEN conjunct2] s3 [THEN conjunct1] by (rule byte_eqI)
  moreover have "c = c'"
    using s3 [THEN conjunct2] b64_fourth_sextet [OF 4] by (rule byte_eqI)
  ultimately show ?thesis
    using rest by blast
qed

lemma b64_third_char_pad:
  "b64_char (code_point b mod 16 * 4 + code_point c div 64) \<noteq> CHR ''=''"
  "b64_char (code_point b mod 16 * 4) \<noteq> CHR ''=''"
  "b64_char (code_point c mod 64) \<noteq> CHR ''=''"
  using sextet_bounds(4,5) [OF code_point_less code_point_less]
  by (simp_all add: b64_char_not_pad)

lemma b64encode_inject: "b64encode xs = b64encode ys \<Longrightarrow> xs = ys"
proof (induction xs arbitrary: ys rule: b64encode.induct)
  case 1
  then show ?case
    by (cases ys rule: b64encode.cases) simp_all
next
  case (2 a)
  show ?case
  proof (cases ys rule: b64encode.cases)
    case 1
    with 2 show ?thesis by simp
  next
    case (2 a')
    with "2.prems" b64_one [of a a'] show ?thesis by simp
  next
    case (3 a' b')
    with "2.prems" b64_third_char_pad(2) [of b'] show ?thesis by auto
  next
    case (4 a' b' c' rest)
    with "2.prems" b64_third_char_pad(1) [of b' c'] show ?thesis by auto
  qed
next
  case (3 a b)
  show ?case
  proof (cases ys rule: b64encode.cases)
    case 1
    with 3 show ?thesis by simp
  next
    case (2 a')
    with "3.prems" b64_third_char_pad(2) [of b] show ?thesis by auto
  next
    case (3 a' b')
    with "3.prems" b64_two [of a b a' b'] show ?thesis by simp
  next
    case (4 a' b' c' rest)
    with "3.prems" b64_third_char_pad(3) [of c'] show ?thesis by auto
  qed
next
  case (4 a b c rest)
  show ?case
  proof (cases ys rule: b64encode.cases)
    case 1
    with 4 show ?thesis by simp
  next
    case (2 a')
    with "4.prems" b64_third_char_pad(1) [of b c] show ?thesis by auto
  next
    case (3 a' b')
    with "4.prems" b64_third_char_pad(3) [of c] show ?thesis by auto
  next
    case ys: (4 a' b' c' rest')
    with "4.prems" have "b64encode (a # b # c # rest) = b64encode (a' # b' # c' # rest')"
      by simp
    from b64_three [OF this] "4.IH" [of rest'] ys show ?thesis
      by simp
  qed
qed

section \<open>Timestamp and password: the format and the clock\<close>

lemma digit_char_zero: "digit_char 0 = CHR ''0''"
  by code_simp

lemma code_point_digit_char: "d < 10 \<Longrightarrow> code_point (digit_char d) = 48 + d"
  by (simp add: code_point_def digit_char_def)

lemma digit_char_inject: "d < 10 \<Longrightarrow> e < 10 \<Longrightarrow> digit_char d = digit_char e \<longleftrightarrow> d = e"
proof
  assume "d < 10" and "e < 10" and "digit_char d = digit_char e"
  then have "code_point (digit_char d) = code_point (digit_char e)"
    by simp
  with \<open>d < 10\<close> \<open>e < 10\<close> show "d = e"
    by (simp add: code_point_digit_char)
qed simp

lemma str_of_nat_one: "n < 10 \<Longrightarrow> str_of_nat n = [digit_char n]"
  by (simp add: str_of_nat.simps)

lemma str_of_nat_two: "10 \<le> n \<Longrightarrow> n < 100 \<Longrightarrow> str_of_nat n = [digit_char (n div 10), digit_char (n mod 10)]"
  by (subst str_of_nat.simps) (simp add: str_of_nat_one less_mult_imp_div_less)

lemma str_of_nat_step: "10 \<le> n \<Longrightarrow> str_of_nat n = str_of_nat (n div 10) @ [digit_char (n mod 10)]"
  by (subst str_of_nat.simps) simp

lemma str_of_nat_three:
  assumes "100 \<le> n" and "n < 1000"
  shows "str_of_nat n = [digit_char (n div 100), digit_char (n div 10 mod 10), digit_char (n mod 10)]"
proof -
  have "10 \<le> n div 10" and "n div 10 < 100"
    using assms by simp_all
  then have "str_of_nat (n div 10) = [digit_char (n div 10 div 10), digit_char (n div 10 mod 10)]"
    by (rule str_of_nat_two)
  moreover have "n div 10 div 10 = n div 100"
    by (simp add: div_mult2_eq [symmetric])
  ultimately show ?thesis
    using assms(1) by (simp add: str_of_nat_step)
qed

lemma str_of_nat_four:
  assumes "1000 \<le> n" and "n < 10000"
  shows "str_of_nat n = [digit_char (n div 1000), digit_char (n div 100 mod 10), digit_char (n div 10 mod 10),
                         digit_char (n mod 10)]"
proof -
  have "100 \<le> n div 10" and "n div 10 < 1000"
    using assms by simp_all
  then have "str_of_nat (n div 10) =
      [digit_char (n div 10 div 100), digit_char (n div 10 div 10 mod 10), digit_char (n div 10 mod 10)]"
    by (rule str_of_nat_three)
  moreover have "n div 10 div 100 = n div 1000" and "n div 10 div 10 = n div 100"
    by (simp_all add: div_mult2_eq [symmetric])
  ultimately show ?thesis
    using assms(1) by (simp add: str_of_nat_step)
qed

lemma zero_pad_two: "n < 100 \<Longrightarrow> zero_pad 2 n = two_digits n"
  by (cases "n < 10")
    (simp_all add: zero_pad_def two_digits_def str_of_nat_one str_of_nat_two digit_char_zero)

lemma replicate_two: "replicate 2 x = [x, x]"
  by (simp add: numeral_2_eq_2)

lemma replicate_three: "replicate 3 x = [x, x, x]"
  by (simp add: numeral_3_eq_3)

lemma zero_pad_four: "n < 10000 \<Longrightarrow> zero_pad 4 n = four_digits n"
proof -
  assume "n < 10000"
  consider "n < 10" | "10 \<le> n" "n < 100" | "100 \<le> n" "n < 1000" | "1000 \<le> n"
    by linarith
  then show ?thesis
  proof cases
    case 1
    then show ?thesis
      by (simp add: zero_pad_def four_digits_def str_of_nat_one digit_char_zero replicate_three)
  next
    case 2
    then show ?thesis
      by (simp add: zero_pad_def four_digits_def str_of_nat_two digit_char_zero replicate_two)
  next
    case 3
    then show ?thesis
      by (simp add: zero_pad_def four_digits_def str_of_nat_three digit_char_zero)
  next
    case 4
    with \<open>n < 10000\<close> show ?thesis
      by (simp add: zero_pad_def four_digits_def str_of_nat_four)
  qed
qed

lemma strftime_format: "valid_datetime t \<Longrightarrow> strftime t = yyyymmddhhmmss t"
  by (simp add: valid_datetime_def strftime_def yyyymmddhhmmss_def zero_pad_two zero_pad_four)

lemma two_digits_inject:
  assumes "n < 100" and "m < 100"
  shows "two_digits n = two_digits m \<longleftrightarrow> n = m"
proof
  assume "two_digits n = two_digits m"
  then have "digit_char (n div 10) = digit_char (m div 10)" and "digit_char (n mod 10) = digit_char (m mod 10)"
    by (simp_all add: two_digits_def)
  moreover have "n div 10 < 10" and "m div 10 < 10"
    using assms by simp_all
  ultimately have "n div 10 = m div 10" and "n mod 10 = m mod 10"
    by (simp_all add: digit_char_inject)
  then show "n = m"
    by (rule div_mod_eqI)
qed simp

lemma four_digits_inject:
  assumes "n < 10000" and "m < 10000"
  shows "four_digits n = four_digits m \<longleftrightarrow> n = m"
proof
  assume "four_digits n = four_digits m"
  then have 1: "digit_char (n div 1000) = digit_char (m div 1000)"
    and 2: "digit_char (n div 100 mod 10) = digit_char (m div 100 mod 10)"
    and 3: "digit_char (n div 10 mod 10) = digit_char (m div 10 mod 10)"
    and 4: "digit_char (n mod 10) = digit_char (m mod 10)"
    by (simp_all add: four_digits_def)
  have "n div 1000 < 10" and "m div 1000 < 10"
    using assms by simp_all
  with 1 have a: "n div 1000 = m div 1000"
    by (simp add: digit_char_inject)
  from 2 have b: "n div 100 mod 10 = m div 100 mod 10"
    by (simp add: digit_char_inject)
  from 3 have c: "n div 10 mod 10 = m div 10 mod 10"
    by (simp add: digit_char_inject)
  from 4 have d: "n mod 10 = m mod 10"
    by (simp add: digit_char_inject)
  have "n div 100 div 10 = m div 100 div 10"
    using a by (simp add: div_mult2_eq [symmetric])
  then have "n div 100 = m div 100"
    using b by (rule div_mod_eqI)
  then have "n div 10 div 10 = m div 10 div 10"
    by (simp add: div_mult2_eq [symmetric])
  then have "n div 10 = m div 10"
    using c by (rule div_mod_eqI)
  then show "n = m"
    using d by (rule div_mod_eqI)
qed simp

lemma length_two_digits [simp]: "length (two_digits n) = 2"
  by (simp add: two_digits_def)

lemma length_four_digits [simp]: "length (four_digits n) = 4"
  by (simp add: four_digits_def)

lemma yyyymmddhhmmss_inject:
  assumes "valid_datetime t" and "valid_datetime t'"
  shows "yyyymmddhhmmss t = yyyymmddhhmmss t' \<longleftrightarrow> same_second t t'"
  using assms
  by (simp add: yyyymmddhhmmss_def same_second_def valid_datetime_def
      four_digits_inject two_digits_inject)

lemma utf8_append: "utf8 (s @ t) = utf8 s @ utf8 t"
  by (simp add: utf8_def)

lemma utf8_digit_char: "d < 10 \<Longrightarrow> utf8_char (digit_char d) = [digit_char d]"
  by (simp add: utf8_char_def code_point_digit_char)

lemma utf8_two_digits: "n < 100 \<Longrightarrow> utf8 (two_digits n) = two_digits n"
  by (simp add: utf8_def two_digits_def utf8_digit_char)

lemma utf8_four_digits: "n < 10000 \<Longrightarrow> utf8 (four_digits n) = four_digits n"
  by (simp add: utf8_def four_digits_def utf8_digit_char)

lemma utf8_timestamp: "valid_datetime t \<Longrightarrow> utf8 (yyyymmddhhmmss t) = yyyymmddhhmmss t"
  by (simp add: yyyymmddhhmmss_def utf8_append utf8_two_digits utf8_four_digits valid_datetime_def)

lemma generate_mpesa_credentials_value:
  assumes "valid_datetime (datetime_now env ''Africa/Nairobi'')"
  shows "fst (generate_mpesa_credentials cfg env) =
           (yyyymmddhhmmss (datetime_now env ''Africa/Nairobi''),
            b64encode (utf8 (BUSINESS_SHORT_CODE cfg @ PASSKEY cfg @
                             yyyymmddhhmmss (datetime_now env ''Africa/Nairobi''))))"
  by (simp add: generate_mpesa_credentials_def Let_def strftime_format [OF assms])

lemma password_differs:
  assumes "valid_datetime t" and "valid_datetime t'" and "\<not> same_second t t'"
  shows "b64encode (utf8 (s @ p @ yyyymmddhhmmss t)) \<noteq> b64encode (utf8 (s @ p @ yyyymmddhhmmss t'))"
proof
  assume "b64encode (utf8 (s @ p @ yyyymmddhhmmss t)) = b64encode (utf8 (s @ p @ yyyymmddhhmmss t'))"
  then have "utf8 (s @ p @ yyyymmddhhmmss t) = utf8 (s @ p @ yyyymmddhhmmss t')"
    by (rule b64encode_inject)
  then have "yyyymmddhhmmss t = yyyymmddhhmmss t'"
    by (simp add: utf8_append utf8_timestamp assms(1,2))
  with assms show False
    by (simp add: yyyymmddhhmmss_inject)
qed

text \<open>
  Claim C6. \<^const>\<open>generate_mpesa_credentials\<close> reads the clock once, in the zone
  Africa/Nairobi, and returns the pair of the timestamp and the password: the
  timestamp is that time written as YYYYMMDDHHmmss, and the password is the Base64
  text of the short code followed by the passkey followed by the timestamp. With the
  same configuration, two calls whose clock readings fall in the same second return
  the same pair, and two calls whose readings fall in different seconds return
  different timestamps and different passwords.
\<close>

theorem credentials_follow_the_clock:
  assumes "valid_datetime (datetime_now env ''Africa/Nairobi'')"
      and "valid_datetime (datetime_now env' ''Africa/Nairobi'')"
  shows "fst (generate_mpesa_credentials cfg env) =
           (yyyymmddhhmmss (datetime_now env ''Africa/Nairobi''),
            b64encode (utf8 (BUSINESS_SHORT_CODE cfg @ PASSKEY cfg @
                             yyyymmddhhmmss (datetime_now env ''Africa/Nairobi'')))) \<and>
         outside_calls (snd (generate_mpesa_credentials cfg env)) = [Now ''Africa/Nairobi''] \<and>
         (same_second (datetime_now env ''Africa/Nairobi'') (datetime_now env' ''Africa/Nairobi'') \<longrightarrow>
            fst (generate_mpesa_credentials cfg env) = fst (generate_mpesa_credentials cfg env')) \<and>
         (\<not> same_second (datetime_now env ''Africa/Nairobi'') (datetime_now env' ''Africa/Nairobi'') \<longrightarrow>
            fst (fst (generate_mpesa_credentials cfg env)) \<noteq> fst (fst (generate_mpesa_credentials cfg env')) \<and>
            snd (fst (generate_mpesa_credentials cfg env)) \<noteq> snd (fst (generate_mpesa_credentials cfg env')))"
proof (intro conjI impI)
  show "fst (generate_mpesa_credentials cfg env) =
           (yyyymmddhhmmss (datetime_now env ''Africa/Nairobi''),
            b64encode (utf8 (BUSINESS_SHORT_CODE cfg @ PASSKEY cfg @
                             yyyymmddhhmmss (datetime_now env ''Africa/Nairobi''))))"
    by (rule generate_mpesa_credentials_value [OF assms(1)])
next
  show "outside_calls (snd (generate_mpesa_credentials cfg env)) = [Now ''Africa/Nairobi'']"
    by (simp add: generate_mpesa_credentials_def outside_calls_def Let_def)
next
  assume "same_second (datetime_now env ''Africa/Nairobi'') (datetime_now env' ''Africa/Nairobi'')"
  then have "yyyymmddhhmmss (datetime_now env ''Africa/Nairobi'') = yyyymmddhhmmss (datetime_now env' ''Africa/Nairobi'')"
    by (simp add: yyyymmddhhmmss_inject [OF assms])
  then show "fst (generate_mpesa_credentials cfg env) = fst (generate_mpesa_credentials cfg env')"
    by (simp add: generate_mpesa_credentials_value assms)
next
  assume "\<not> same_second (datetime_now env ''Africa/Nairobi'') (datetime_now env' ''Africa/Nairobi'')"
  then show "fst (fst (generate_mpesa_credentials cfg env)) \<noteq> fst (fst (generate_mpesa_credentials cfg env'))"
    by (simp add: generate_mpesa_credentials_value assms yyyymmddhhmmss_inject)
next
  assume "\<not> same_second (datetime_now env ''Africa/Nairobi'') (datetime_now env' ''Africa/Nairobi'')"
  then show "snd (fst (generate_mpesa_credentials cfg env)) \<noteq> snd (fst (generate_mpesa_credentials cfg env'))"
    by (simp add: generate_mpesa_credentials_value assms password_differs)
qed

lemma digit_chars:
  "digit_char 0 = CHR ''0''" "digit_char 1 = CHR ''1''" "digit_char 2 = CHR ''2''"
  "digit_char 3 = CHR ''3''" "digit_char 4 = CHR ''4''" "digit_char 5 = CHR ''5''"
  "digit_char 6 = CHR ''6''" "digit_char 7 = CHR ''7''" "digit_char 8 = CHR ''8''"
  "digit_char 9 = CHR ''9''" "digit_char (Suc 0) = CHR ''1''"
  by code_simp+

theorem credentials_follow_the_clock_witness:
  "fst (generate_mpesa_credentials example_config (stub_env (Inl ''unused'') (Inl ''unused'') example_time)) =
     (''20250309070501'', ''MTc0Mzc5cGFzc2tleTIwMjUwMzA5MDcwNTAx'') \<and>
   fst (generate_mpesa_credentials example_config (stub_env (Inl ''unused'') (Inl ''unused'') example_time)) =
     fst (generate_mpesa_credentials example_config
            (stub_env (Inl ''unused'') (Inl ''unused'') example_time_same_second)) \<and>
   fst (fst (generate_mpesa_credentials example_config (stub_env (Inl ''unused'') (Inl ''unused'') example_time))) \<noteq>
     fst (fst (generate_mpesa_credentials example_config
            (stub_env (Inl ''unused'') (Inl ''unused'') example_time_next_second))) \<and>
   snd (fst (generate_mpesa_credentials example_config (stub_env (Inl ''unused'') (Inl ''unused'') example_time))) \<noteq>
     snd (fst (generate_mpesa_credentials example_config
            (stub_env (Inl ''unused'') (Inl ''unused'') example_time_next_second)))"
proof -
  let ?env = "stub_env (Inl ''unused'') (Inl ''unused'') example_time"
  let ?same = "stub_env (Inl ''unused'') (Inl ''unused'') example_time_same_second"
  let ?next = "stub_env (Inl ''unused'') (Inl ''unused'') example_time_next_second"
  have now: "datetime_now (stub_env g p t) z = t" for g p t z
    by (simp add: stub_env_def)
  have v: "valid_datetime example_time" "valid_datetime example_time_same_second"
    "valid_datetime example_time_next_second"
    by (simp_all add: valid_datetime_def example_time_def example_time_same_second_def
        example_time_next_second_def)
  have same: "same_second example_time example_time_same_second"
    by (simp add: same_second_def example_time_def example_time_same_second_def)
  have other: "\<not> same_second example_time example_time_next_second"
    by (simp add: same_second_def example_time_def example_time_next_second_def)
  have stamp: "yyyymmddhhmmss example_time = ''20250309070501''"
    by (simp add: yyyymmddhhmmss_def four_digits_def two_digits_def example_time_def digit_chars)
  have b64: "b64encode (utf8 ''174379passkey20250309070501'') = ''MTc0Mzc5cGFzc2tleTIwMjUwMzA5MDcwNTAx''"
    by (simp add: utf8_def utf8_char_def code_point_def b64_char_def b64_alphabet_def)
  have va: "valid_datetime (datetime_now ?env ''Africa/Nairobi'')"
    and vs: "valid_datetime (datetime_now ?same ''Africa/Nairobi'')"
    and vn: "valid_datetime (datetime_now ?next ''Africa/Nairobi'')"
    by (simp_all add: now v)
  have s: "same_second (datetime_now ?env ''Africa/Nairobi'') (datetime_now ?same ''Africa/Nairobi'')"
    and n: "\<not> same_second (datetime_now ?env ''Africa/Nairobi'') (datetime_now ?next ''Africa/Nairobi'')"
    by (simp_all add: now same other)
  note same_case = credentials_follow_the_clock [OF va vs, of example_config]
  note next_case = credentials_follow_the_clock [OF va vn, of example_config]
  from same_case have "fst (generate_mpesa_credentials example_config ?env) =
      (yyyymmddhhmmss (datetime_now ?env ''Africa/Nairobi''),
       b64encode (utf8 (BUSINESS_SHORT_CODE example_config @ PASSKEY example_config @
                        yyyymmddhhmmss (datetime_now ?env ''Africa/Nairobi''))))"
    by (rule conjunct1)
  then have 1: "fst (generate_mpesa_credentials example_config ?env) =
      (yyyymmddhhmmss example_time,
       b64encode (utf8 (BUSINESS_SHORT_CODE example_config @ PASSKEY example_config @ yyyymmddhhmmss example_time)))"
    unfolding now .
  from same_case s have 2: "fst (generate_mpesa_credentials example_config ?env) =
      fst (generate_mpesa_credentials example_config ?same)"
    by blast
  from next_case n have 3: "fst (fst (generate_mpesa_credentials example_config ?env)) \<noteq>
      fst (fst (generate_mpesa_credentials example_config ?next))"
    and 4: "snd (fst (generate_mpesa_credentials example_config ?env)) \<noteq>
      snd (fst (generate_mpesa_credentials example_config ?next))"
    by blast+
  have key: "BUSINESS_SHORT_CODE example_config @ PASSKEY example_config @ ''20250309070501'' =
      ''174379passkey20250309070501''"
    by (simp add: example_config_def)
  from 1 have "fst (generate_mpesa_credentials example_config ?env) =
      (''20250309070501'', ''MTc0Mzc5cGFzc2tleTIwMjUwMzA5MDcwNTAx'')"
    unfolding stamp key b64 .
  with 2 3 4 show ?thesis
    by blast
qed

section \<open>Initiating a payment: an accepted answer under an error status\<close>

text \<open>
  The claim C3 as first stated, for every JSON reply of the payment endpoint, fails at
  a reply with status 503 whose body has ResponseCode "0" and a CheckoutRequestID:
  \<^verbatim>\<open>raise_for_status\<close> raises before the body is read, and the reply is the transport
  failure with status 500, not the success response.
\<close>

theorem payment_reply_interpreted_counterexample:
  "fst (initiate_stk_push example_config
          (stub_env example_token_reply
             (Inr (stub_response 503 ''Service Unavailable'' (Inr (JDict example_accepted)))) example_time)
          (Inr (payment_request ''254712345678'' (JInt 100)))) =
     Inr (JDict [(''success'', JBool False),
                 (''message'',
                  JStr ''Network or API communication error: 503 Server Error: Service Unavailable for url: https://provider.example/'')],
          500)"
proof -
  let ?r = "stub_response 503 ''Service Unavailable'' (Inr (JDict example_accepted))"
  let ?env = "stub_env example_token_reply (Inr ?r) example_time"
  have tok: "truthy (fst (get_access_token example_config ?env))"
    by (simp add: example_token)
  have reply: "stk_reply example_config ?env 174379 254712345678 (JInt 100) = Inr ?r"
    by (simp add: stk_reply_def stub_env_def)
  have status: "error_status ?r"
    by (simp add: error_status_def stub_response_def)
  have n503: "str_of_nat 503 = ''503''"
    by code_simp
  have "fst (stk_push_try example_config ?env (JStr ''254712345678'') (JInt 100)) =
      Inl (Exn HTTPError (str_of_nat (status_code ?r) @
             (if status_code ?r < 500 then '' Client Error: '' else '' Server Error: '') @
             reason ?r @ '' for url: '' @ url ?r))"
    by (rule stk_push_try_error_status [OF tok example_short_code example_phone_int reply status])
  then have "fst (stk_push_handlers (stk_push_try example_config ?env (JStr ''254712345678'') (JInt 100))) =
      Inr (failure_body (''Network or API communication error: '' @ str_of_nat (status_code ?r) @
             (if status_code ?r < 500 then '' Client Error: '' else '' Server Error: '') @
             reason ?r @ '' for url: '' @ url ?r), 500)"
    by (rule stk_push_handlers_HTTPError)
  then have "fst (initiate_stk_push example_config ?env (Inr (payment_request ''254712345678'' (JInt 100)))) =
      Inr (failure_body (''Network or API communication error: '' @ str_of_nat (status_code ?r) @
             (if status_code ?r < 500 then '' Client Error: '' else '' Server Error: '') @
             reason ?r @ '' for url: '' @ url ?r), 500)"
    by (simp add: initiate_stk_push_valid [OF example_fields example_valid])
  also have "\<dots> = Inr (JDict [(''success'', JBool False),
                 (''message'',
                  JStr ''Network or API communication error: 503 Server Error: Service Unavailable for url: https://provider.example/'')],
          500)"
    by (simp add: stub_response_def n503 failure_body_def)
  finally show ?thesis .
qed

end
